theory Spec2Isabelle
  imports
    Complex_Main
    "HOL-Library.Char_ord"
    "HOL-Library.List_Lexorder"
    "HOL-Library.Option_ord"
    "HOL-Library.Multiset"
begin

section \<open>JavaScript values used by the synchronisation layer\<close>

text \<open>
  Strings are byte strings (the UTF-8 text SQLite stores and compares). A thrown value
  is either an \<open>Error\<close> the repository's code constructs, with its message, or an
  error a platform call raises, \<open>Thrown\<close> with the name of the call that raised it.
  An asynchronous function that rejects is a result \<open>Inl e\<close>, one that resolves is
  \<open>Inr v\<close>.
\<close>

datatype jsError = Error string | Thrown string

type_synonym 'a result = "jsError + 'a"

text \<open>
  A promise is represented by the outcome it settles to. Whoever awaits or returns the
  same promise receives the same outcome.
\<close>

type_synonym 'a promise = "'a result"

text \<open>
  The value of \<open>JSON.parse\<close>. The \<open>Salary\<close> interface of \<^verbatim>\<open>api.ts\<close> is a
  \<open>JObject\<close> with the optional keys \<open>min\<close>, \<open>max\<close>, \<open>currency\<close>, \<open>period\<close>.
\<close>

datatype json =
    JNull
  | JBool bool
  | JNumber real
  | JString string
  | JArray "json list"
  | JObject "(string \<times> json) list"

text \<open>JavaScript's truthiness of a JSON value, as \<open>||\<close> tests it.\<close>

fun truthy :: "json \<Rightarrow> bool" where
  "truthy JNull = False"
| "truthy (JBool b) = b"
| "truthy (JNumber r) = (r \<noteq> 0)"
| "truthy (JString s) = (s \<noteq> [])"
| "truthy (JArray xs) = True"
| "truthy (JObject kvs) = True"


subsection \<open>\<open>Number.prototype.toString\<close> and \<open>parseInt(s, 10)\<close> on integers\<close>

text \<open>
  \<open>Date.now()\<close> is an integer of magnitude below \<open>2^53\<close>, where \<open>toString\<close> prints the
  plain decimal digits with a leading minus sign for a negative value. \<open>parseInt\<close> with
  radix 10 skips leading white space (the ASCII white space characters here), reads an
  optional sign and the longest run of decimal digits, and gives \<open>NaN\<close> when there is
  no digit.
\<close>

definition digitChar :: "nat \<Rightarrow> char" where
  "digitChar d = char_of (48 + d)"

fun digitsOf :: "nat \<Rightarrow> string" where
  "digitsOf n = (if n < 10 then [digitChar n] else digitsOf (n div 10) @ [digitChar (n mod 10)])"

declare digitsOf.simps [simp del]

definition toString :: "int \<Rightarrow> string" where
  "toString n = (if n < 0 then CHR ''-'' # digitsOf (nat (- n)) else digitsOf (nat n))"






section \<open>The data model (\<^verbatim>\<open>src/services/api.ts\<close>)\<close>

text \<open>
  \<open>companyLogo?: string | null\<close>: absent, \<open>null\<close> or a URL.
\<close>

datatype logo = LogoUndefined | LogoNull | Logo string

text \<open>\<open>requirements\<close> and \<open>benefits\<close>: \<open>string[] | string\<close>.\<close>

datatype textOrList = Text string | TextList "string list"

text \<open>
  \<open>postedDate: string | Date\<close>; a \<open>Date\<close> is its epoch milliseconds. A row read back
  from the store carries the column's value, which SQLite allows to be \<open>NULL\<close>.
\<close>

datatype posted = PostedString string | PostedDate int | PostedNull

text \<open>
  The interface \<open>Job\<close>. The source's field \<open>_id\<close> is \<open>underscore_id\<close> and \<open>type\<close> is
  \<open>jobType\<close>; an optional field is an \<open>option\<close>, \<open>None\<close> when the key is absent.
\<close>

record Job =
  id :: string
  underscore_id :: "string option"
  title :: string
  company :: string
  companyLogo :: logo
  location :: string
  jobType :: string
  salary :: json
  workplace :: "string option"
  description :: "string option"
  requirements :: "textOrList option"
  benefits :: "textOrList option"
  postedDate :: posted
  featured :: "bool option"
  category :: "string option"

text \<open>Truthiness of an optional string: present and not empty.\<close>

definition truthyStr :: "string option \<Rightarrow> bool" where
  "truthyStr s = (case s of None \<Rightarrow> False | Some t \<Rightarrow> t \<noteq> [])"

section \<open>The Remote Catalog Client (\<^verbatim>\<open>src/services/api.ts\<close>)\<close>

text \<open>
  The value of \<open>data.jobs\<close> when reading its \<open>length\<close> does not throw: an array, whose
  elements are taken to be job objects, or a value that is not an array (a boolean, a
  number, a string or an object whose keys are distinct). The declared type is
  \<open>Job[]\<close>, but nothing in \<open>fetchJobs\<close> checks it.
\<close>

datatype notArray =
    NBool bool
  | NNumber real
  | NString string
  | NObject "(string \<times> json) list"

datatype jobsValue = JobArray "Job list" | NotArray notArray

text \<open>
  What \<open>fetch(`${API_URL}/jobs`)\<close> and the reading of its body can do:
  \<open>fetch\<close> rejects; the response is not \<open>ok\<close> (with its status); \<open>response.json()\<close>
  rejects; \<open>data.jobs.length\<close> throws, because \<open>data\<close> or \<open>data.jobs\<close> is \<open>null\<close> or
  \<open>undefined\<close>; or \<open>data.jobs\<close> has a \<open>length\<close> to read and the body is returned.
\<close>

datatype jobsReply =
    JobsNetworkError
  | JobsStatus int
  | JobsBadJson
  | JobsNoList
  | JobsData jobsValue int

text \<open>
  What \<open>fetch(`${apiUrl}/jobs/${id}`)\<close> can do. \<open>JobBody jd\<close> is a body whose
  \<open>data.job || data\<close> is the object \<open>jd\<close>; a key the code tests for truthiness
  (\<open>title\<close>, \<open>company\<close>, \<open>id\<close>) is the empty string when it is missing, which the test
  does not tell from an empty value. \<open>JobNotObject\<close> is any other body (\<open>null\<close>, a
  number, a string, ...): reading \<open>.job\<close> or \<open>.title\<close> of it throws or gives \<open>undefined\<close>.
\<close>

datatype jobReply =
    JobNetworkError
  | JobStatus int
  | JobBadJson
  | JobNotObject
  | JobBody Job

text \<open>\<open>getMockJobById\<close>, with \<open>now\<close> the value of \<open>Date.now()\<close>.\<close>

definition getMockJobById :: "int \<Rightarrow> string \<Rightarrow> Job" where
  "getMockJobById now i =
     \<lparr> id = i,
       underscore_id = None,
       title = ''Senior React Native Developer'',
       company = ''Tech Innovations Inc'',
       companyLogo = Logo ''https://placehold.co/200x200/4F46E5/FFFFFF?text=TI'',
       location = ''San Francisco, CA'',
       jobType = ''Full-time'',
       salary = JObject [(''min'', JNumber 120000), (''max'', JNumber 150000),
                         (''currency'', JString ''$''), (''period'', JString ''year'')],
       workplace = Some ''Remote'',
       description = Some (''We are seeking an experienced React Native developer to join our mobile development team. The ideal candidate will have a strong background in building cross-platform mobile applications with React Native, a solid understanding of native mobile platforms, and experience with state management solutions.''
         @ [CHR 0x0A, CHR 0x0A]
         @ ''You will work closely with designers, product managers, and other engineers to develop new features, improve performance, and ensure the quality of our mobile applications.''),
       requirements = Some (TextList
         [''At least 4 years of experience with React Native development'',
          ''Strong understanding of JavaScript, TypeScript, and React Native best practices'',
          ''Experience with state management solutions (Redux, Context API, MobX)'',
          ''Familiarity with native build tools (Xcode, Android Studio)'',
          ''Knowledge of RESTful APIs and GraphQL'',
          ''Bachelor'' @ [CHR 0x27] @ ''s degree in Computer Science or related field (or equivalent experience)'']),
       benefits = Some (TextList
         [''Competitive salary and equity package'',
          ''Health, dental, and vision insurance'',
          ''Flexible work schedule and remote work options'',
          ''Generous PTO policy'',
          ''401(k) matching'',
          ''Professional development budget'',
          ''Wellness program'']),
       postedDate = PostedDate (now - 5 * 86400000),
       featured = Some True,
       category = Some ''software-development'' \<rparr>"

text \<open>
  \<open>fetchJobById\<close>: every failure (a rejected \<open>fetch\<close>, a status that is not \<open>ok\<close>, a body
  that is not JSON, a body without \<open>title\<close> or \<open>company\<close>) returns the mock job; the
  \<open>catch\<close> block returns it too, so the function never rejects.
\<close>

definition fetchJobById :: "int \<Rightarrow> jobReply \<Rightarrow> string \<Rightarrow> Job result" where
  "fetchJobById now reply i =
     (case reply of
        JobNetworkError \<Rightarrow> Inr (getMockJobById now i)
      | JobStatus st \<Rightarrow> Inr (getMockJobById now i)
      | JobBadJson \<Rightarrow> Inr (getMockJobById now i)
      | JobNotObject \<Rightarrow> Inr (getMockJobById now i)
      | JobBody jd \<Rightarrow>
          if title jd = [] \<or> company jd = [] then Inr (getMockJobById now i)
          else Inr (jd\<lparr> id := (case underscore_id jd of
                                  Some u \<Rightarrow> if u \<noteq> [] then u else if id jd \<noteq> [] then id jd else i
                                | None \<Rightarrow> if id jd \<noteq> [] then id jd else i) \<rparr>))"

text \<open>
  \<open>fetchJobs\<close>: a failure is thrown again after it is logged. The message of the
  \<open>Error\<close> for a status that is not \<open>ok\<close> is \<open>HTTP error! status: \<close> followed by the
  status. A body whose \<open>jobs\<close> is not an array is returned like any other.
\<close>

definition fetchJobs :: "jobsReply \<Rightarrow> (jobsValue \<times> int) result" where
  "fetchJobs reply =
     (case reply of
        JobsNetworkError \<Rightarrow> Inl (Thrown ''fetch'')
      | JobsStatus st \<Rightarrow> Inl (Error (''HTTP error! status: '' @ toString st))
      | JobsBadJson \<Rightarrow> Inl (Thrown ''response.json'')
      | JobsNoList \<Rightarrow> Inl (Thrown ''data.jobs.length'')
      | JobsData js n \<Rightarrow> Inr (js, n))"

section \<open>The world the provider runs in\<close>

text \<open>
  What the SQLite driver does with a bind value that is neither a string, a number nor
  \<open>null\<close> is not code of this repository: it refuses the value (\<open>runAsync\<close> throws),
  binds \<open>NULL\<close>, or binds some text.
\<close>

datatype bound = Refused | BoundNull | BoundText string

text \<open>
  Everything outside the repository's code that one operation consults: the clock (one
  reading of \<open>Date.now()\<close> for the whole operation), the reachability report
  (\<open>boolean | null\<close>), the replies of the network, whether a call of the key-value
  storage or of SQLite throws, the driver's treatment of an array, a \<open>Date\<close> and
  \<open>undefined\<close> as bind values, and \<open>JSON.stringify\<close> / \<open>JSON.parse\<close> (\<open>None\<close> when
  \<open>JSON.parse\<close> throws).
\<close>

record env =
  dateNow :: int
  isConnected :: "bool option"
  replyJobs :: jobsReply
  replyJob :: "string \<Rightarrow> jobReply"
  getItemThrows :: bool
  setItemThrows :: bool
  openThrows :: bool
  beginThrows :: bool
  commitThrows :: bool
  bindArray :: "string list \<Rightarrow> bound"
  bindDate :: "int \<Rightarrow> bound"
  bindUndefined :: bound
  JSON_stringify :: "json \<Rightarrow> string"
  JSON_parse :: "string \<Rightarrow> json option"

text \<open>
  A row of the table \<open>jobs\<close> created by \<open>initDatabase\<close>. The columns declared
  \<open>NOT NULL\<close> hold text; \<open>posted_date\<close> may hold \<open>NULL\<close>; \<open>featured\<close> is an integer;
  \<open>created_at\<close> and \<open>updated_at\<close> hold the ISO text of an instant, kept here as the
  instant.
\<close>

record row =
  row_id :: string
  row_title :: string
  row_company :: string
  row_location :: string
  row_type :: string
  row_category :: string
  row_description :: string
  row_requirements :: string
  row_salary :: string
  row_posted_date :: "string option"
  row_featured :: int
  row_created_at :: int
  row_updated_at :: int

text \<open>
  The calls and writes an operation performs, in the order it performs them: a call of
  \<open>fetchJobs\<close>, a call of \<open>fetchJobById\<close>, a committed \<open>saveJobs\<close> (with the ids
  written), a stored last-sync timestamp, and a \<open>setJobsCache\<close> (with the ids written).
\<close>

datatype event =
    FetchJobsCall
  | FetchJobByIdCall string
  | StoreWrite "string list"
  | TimestampWrite
  | CacheWrite "string list"

text \<open>
  The provider's React state cells (written through their setters), the table \<open>jobs\<close>,
  the key-value item \<open>jobs_last_sync\<close>, and the trace of events.
\<close>

record world =
  st_jobs :: jobsValue
  st_jobsCache :: "string \<rightharpoonup> Job"
  st_pendingFetches :: "string \<rightharpoonup> Job promise"
  st_error :: "string option"
  st_isLoading :: bool
  st_isRefreshing :: bool
  st_isOffline :: bool
  db_jobs :: "row list"
  item_lastSync :: "string option"
  trace :: "event list"

text \<open>
  A function created during a render reads the state of that render: the constants
  \<open>jobs\<close>, \<open>jobsCache\<close> and \<open>pendingFetches\<close> in the body of \<open>refreshFromApi\<close> and of
  \<open>getJobById\<close> are the values the render captured, whatever the setters have stored
  since. \<open>render w\<close> is the closure of a render that sees the state \<open>w\<close>;
  \<open>firstRender\<close> is the closure of the first render, with the initial values of
  \<open>useState\<close>.
\<close>

record closure =
  jobs :: jobsValue
  jobsCache :: "string \<rightharpoonup> Job"
  pendingFetches :: "string \<rightharpoonup> Job promise"

definition render :: "world \<Rightarrow> closure" where
  "render w = \<lparr> jobs = st_jobs w, jobsCache = st_jobsCache w,
                pendingFetches = st_pendingFetches w \<rparr>"

definition firstRender :: closure where
  "firstRender = \<lparr> jobs = JobArray [], jobsCache = Map.empty, pendingFetches = Map.empty \<rparr>"

section \<open>The Persistent Store (\<^verbatim>\<open>services/database.ts\<close>)\<close>


subsection \<open>\<open>saveJobs\<close>\<close>

text \<open>The bind values of one \<open>INSERT OR REPLACE\<close>, as the source computes them.\<close>

definition categoryParam :: "env \<Rightarrow> Job \<Rightarrow> bound" where
  "categoryParam e job = (case category job of None \<Rightarrow> bindUndefined e | Some c \<Rightarrow> BoundText c)"

definition descriptionParam :: "Job \<Rightarrow> string" where
  "descriptionParam job = (case description job of None \<Rightarrow> [] | Some d \<Rightarrow> d)"

definition requirementsParam :: "env \<Rightarrow> Job \<Rightarrow> bound" where
  "requirementsParam e job =
     (case requirements job of
        None \<Rightarrow> BoundText []
      | Some (Text s) \<Rightarrow> BoundText s
      | Some (TextList xs) \<Rightarrow> bindArray e xs)"

definition salaryParam :: "env \<Rightarrow> Job \<Rightarrow> string" where
  "salaryParam e job = (case salary job of JString s \<Rightarrow> s | v \<Rightarrow> JSON_stringify e v)"

definition postedDateParam :: "env \<Rightarrow> Job \<Rightarrow> bound" where
  "postedDateParam e job =
     (case postedDate job of
        PostedString s \<Rightarrow> BoundText s
      | PostedDate d \<Rightarrow> bindDate e d
      | PostedNull \<Rightarrow> BoundNull)"

definition featuredParam :: "Job \<Rightarrow> int" where
  "featuredParam job = (case featured job of Some True \<Rightarrow> 1 | _ \<Rightarrow> 0)"

text \<open>
  One \<open>db.runAsync\<close> of the loop: the row it writes, or the error it throws when the
  driver refuses a bind value or a \<open>NOT NULL\<close> column would receive \<open>NULL\<close>.
\<close>

definition insertRow :: "env \<Rightarrow> Job \<Rightarrow> row result" where
  "insertRow e job =
     (case categoryParam e job of
        Refused \<Rightarrow> Inl (Thrown ''runAsync'')
      | BoundNull \<Rightarrow> Inl (Thrown ''NOT NULL constraint failed: jobs.category'')
      | BoundText cat \<Rightarrow>
     (case requirementsParam e job of
        Refused \<Rightarrow> Inl (Thrown ''runAsync'')
      | BoundNull \<Rightarrow> Inl (Thrown ''NOT NULL constraint failed: jobs.requirements'')
      | BoundText req \<Rightarrow>
     (case postedDateParam e job of
        Refused \<Rightarrow> Inl (Thrown ''runAsync'')
      | posted \<Rightarrow>
          Inr \<lparr> row_id = id job,
                row_title = title job,
                row_company = company job,
                row_location = location job,
                row_type = jobType job,
                row_category = cat,
                row_description = descriptionParam job,
                row_requirements = req,
                row_salary = salaryParam e job,
                row_posted_date = (case posted of BoundText s \<Rightarrow> Some s | _ \<Rightarrow> None),
                row_featured = featuredParam job,
                row_created_at = dateNow e,
                row_updated_at = dateNow e \<rparr>)))"

text \<open>\<open>INSERT OR REPLACE\<close> on the primary key \<open>id\<close>: the row with that id is replaced.\<close>

definition insertOrReplace :: "row \<Rightarrow> row list \<Rightarrow> row list" where
  "insertOrReplace r t = filter (\<lambda>x. row_id x \<noteq> row_id r) t @ [r]"

text \<open>
  The \<open>for\<close> loop of \<open>saveJobs\<close> over an array, inside the transaction: it stops at the
  first throw.
\<close>

fun runInserts :: "env \<Rightarrow> Job list \<Rightarrow> row list \<Rightarrow> row list result" where
  "runInserts e [] t = Inr t"
| "runInserts e (job # rest) t =
     (case insertRow e job of
        Inl err \<Rightarrow> Inl err
      | Inr r \<Rightarrow> runInserts e rest (insertOrReplace r t))"

text \<open>
  The loop over a string iterates its characters. A character has none of the keys
  the loop reads, so every bind value but \<open>description\<close>, \<open>requirements\<close> (both \<open>''\<close>),
  \<open>featured\<close> (0) and the two instants is \<open>undefined\<close>, also
  \<open>JSON.stringify(undefined)\<close>. The loop writes the same row at every step; it is
  run here once for each byte of the string, which leaves the same table as once for
  each character.
\<close>

definition insertUndefined :: "env \<Rightarrow> row result" where
  "insertUndefined e =
     (case bindUndefined e of
        Refused \<Rightarrow> Inl (Thrown ''runAsync'')
      | BoundNull \<Rightarrow> Inl (Thrown ''NOT NULL constraint failed: jobs.title'')
      | BoundText t \<Rightarrow>
          Inr \<lparr> row_id = t, row_title = t, row_company = t, row_location = t,
                row_type = t, row_category = t, row_description = [],
                row_requirements = [], row_salary = t, row_posted_date = Some t,
                row_featured = 0, row_created_at = dateNow e, row_updated_at = dateNow e \<rparr>)"

fun runCharInserts :: "env \<Rightarrow> string \<Rightarrow> row list \<Rightarrow> row list result" where
  "runCharInserts e [] t = Inr t"
| "runCharInserts e (ch # rest) t =
     (case insertUndefined e of
        Inl err \<Rightarrow> Inl err
      | Inr r \<Rightarrow> runCharInserts e rest (insertOrReplace r t))"

text \<open>
  \<open>for (const job of jobs)\<close>: an array and a string are iterable; on any other value
  the statement throws.
\<close>

fun runLoop :: "env \<Rightarrow> jobsValue \<Rightarrow> row list \<Rightarrow> row list result" where
  "runLoop e (JobArray js) t = runInserts e js t"
| "runLoop e (NotArray (NString s)) t = runCharInserts e s t"
| "runLoop e (NotArray (NBool b)) t = Inl (Thrown ''jobs is not iterable'')"
| "runLoop e (NotArray (NNumber r)) t = Inl (Thrown ''jobs is not iterable'')"
| "runLoop e (NotArray (NObject kvs)) t = Inl (Thrown ''jobs is not iterable'')"

text \<open>
  \<open>jobs.length === 0\<close>: the empty array, the empty string and an object whose key
  \<open>length\<close> holds 0; a boolean and a number have no \<open>length\<close>.
\<close>

fun lengthZero :: "jobsValue \<Rightarrow> bool" where
  "lengthZero (JobArray js) = (js = [])"
| "lengthZero (NotArray (NString s)) = (s = [])"
| "lengthZero (NotArray (NObject kvs)) = (map_of kvs ''length'' = Some (JNumber 0))"
| "lengthZero (NotArray (NBool b)) = False"
| "lengthZero (NotArray (NNumber r)) = False"

text \<open>The ids of the rows a committed loop has written.\<close>

fun writtenIds :: "env \<Rightarrow> jobsValue \<Rightarrow> string list" where
  "writtenIds e (JobArray js) = map id js"
| "writtenIds e (NotArray v) = (case bindUndefined e of BoundText t \<Rightarrow> [t] | _ \<Rightarrow> [])"

text \<open>
  What happens from \<open>openDatabase\<close> to \<open>COMMIT\<close>: the committed table, or the error
  thrown. A throw inside the transaction runs \<open>ROLLBACK\<close>, which leaves the table as it
  was at \<open>BEGIN\<close>, and is thrown again.
\<close>

definition transaction :: "env \<Rightarrow> jobsValue \<Rightarrow> row list \<Rightarrow> row list result" where
  "transaction e js t =
     (if openThrows e then Inl (Thrown ''openDatabaseAsync'')
      else if beginThrows e then Inl (Thrown ''BEGIN TRANSACTION'')
      else (case runLoop e js t of
              Inl err \<Rightarrow> Inl err
            | Inr t' \<Rightarrow> if commitThrows e then Inl (Thrown ''COMMIT'') else Inr t'))"

text \<open>
  \<open>saveJobs\<close>: nothing when \<open>jobs.length === 0\<close>; otherwise the transaction. Its
  parameter is declared \<open>Job[]\<close>; \<open>refreshFromApi\<close> passes it whatever \<open>fetchJobs\<close>
  returned as \<open>jobs\<close>.
\<close>

definition saveJobs :: "env \<Rightarrow> jobsValue \<Rightarrow> world \<Rightarrow> unit result \<times> world" where
  "saveJobs e js w =
     (if lengthZero js then (Inr (), w)
      else (case transaction e js (db_jobs w) of
              Inl err \<Rightarrow> (Inl err, w)
            | Inr t \<Rightarrow> (Inr (), w\<lparr> db_jobs := t,
                                   trace := trace w @ [StoreWrite (writtenIds e js)] \<rparr>)))"

subsection \<open>\<open>getJobs\<close> and \<open>getJobById\<close>\<close>

definition tryParseJSON :: "env \<Rightarrow> string \<Rightarrow> json" where
  "tryParseJSON e s = (case JSON_parse e s of Some v \<Rightarrow> v | None \<Rightarrow> JNull)"

text \<open>The object both readers build from a row: eleven keys, the others absent.\<close>

definition rowJob :: "env \<Rightarrow> row \<Rightarrow> Job" where
  "rowJob e r =
     \<lparr> id = row_id r,
       underscore_id = None,
       title = row_title r,
       company = row_company r,
       companyLogo = LogoUndefined,
       location = row_location r,
       jobType = row_type r,
       salary = (if truthy (tryParseJSON e (row_salary r)) then tryParseJSON e (row_salary r)
                 else JString (row_salary r)),
       workplace = None,
       description = Some (row_description r),
       requirements = Some (Text (row_requirements r)),
       benefits = None,
       postedDate = (case row_posted_date r of Some s \<Rightarrow> PostedString s | None \<Rightarrow> PostedNull),
       featured = Some (row_featured r = 1),
       category = Some (row_category r) \<rparr>"

text \<open>
  \<open>ORDER BY featured DESC, posted_date DESC\<close>: \<open>rowBefore a b\<close> when \<open>a\<close> may stand
  before \<open>b\<close>. Text compares bytewise and \<open>NULL\<close> is below every text, which are the
  orders of \<open>string\<close> and of \<open>option\<close>. SQL leaves the order of rows with equal keys
  open; the sort below keeps them in the order of the table.
\<close>

definition rowBefore :: "row \<Rightarrow> row \<Rightarrow> bool" where
  "rowBefore a b =
     (row_featured b < row_featured a
      \<or> (row_featured a = row_featured b \<and> row_posted_date b \<le> row_posted_date a))"

fun insertOrdered :: "row \<Rightarrow> row list \<Rightarrow> row list" where
  "insertOrdered r [] = [r]"
| "insertOrdered r (x # xs) = (if rowBefore r x then r # x # xs else x # insertOrdered r xs)"

definition orderRows :: "row list \<Rightarrow> row list" where
  "orderRows t = foldr insertOrdered t []"

definition Database_getJobs :: "env \<Rightarrow> world \<Rightarrow> Job list result" where
  "Database_getJobs e w =
     (if openThrows e then Inl (Thrown ''openDatabaseAsync'')
      else Inr (map (rowJob e) (orderRows (db_jobs w))))"

definition Database_getJobById :: "env \<Rightarrow> string \<Rightarrow> world \<Rightarrow> Job option result" where
  "Database_getJobById e i w =
     (if openThrows e then Inl (Thrown ''openDatabaseAsync'')
      else (case find (\<lambda>r. row_id r = i) (db_jobs w) of
              None \<Rightarrow> Inr None
            | Some r \<Rightarrow> Inr (Some (rowJob e r))))"

subsection \<open>The last-sync timestamp and staleness\<close>


text \<open>\<open>updateLastSyncTime\<close>: an error of the storage is logged and swallowed.\<close>

definition updateLastSyncTime :: "env \<Rightarrow> world \<Rightarrow> world" where
  "updateLastSyncTime e w =
     (if setItemThrows e then w
      else w\<lparr> item_lastSync := Some (toString (dateNow e)),
               trace := trace w @ [TimestampWrite] \<rparr>)"


section \<open>The Synchronization Orchestrator (\<^verbatim>\<open>contexts/JobsContext.tsx\<close>)\<close>

text \<open>
  The provider with the local database, the second module of
  \<^verbatim>\<open>src/unnamed/part_004\<close>. \<open>NetInfo.fetch()\<close> is taken to resolve; what it reports is
  \<open>isConnected\<close> of the environment.
\<close>

subsection \<open>\<open>refreshFromApi\<close>\<close>

text \<open>
  The object built for an incoming \<open>job\<close> whose cached \<open>existingJob\<close> has a truthy
  \<open>description\<close>: the spread of \<open>existingJob\<close> with nine keys taken from \<open>job\<close>.
\<close>

definition mergeJob :: "Job \<Rightarrow> Job \<Rightarrow> Job" where
  "mergeJob existingJob job =
     existingJob\<lparr> title := title job,
                   company := company job,
                   companyLogo := companyLogo job,
                   location := location job,
                   jobType := jobType job,
                   salary := salary job,
                   workplace := workplace job,
                   featured := featured job,
                   category := category job \<rparr>"

text \<open>
  The \<open>forEach\<close> over \<open>jobsData\<close>: \<open>existingJob\<close> is read from the captured \<open>jobsCache\<close>
  (first argument), the assignment goes to \<open>updatedCache\<close> (last argument).
\<close>

fun mergeLoop :: "(string \<rightharpoonup> Job) \<Rightarrow> Job list \<Rightarrow> (string \<rightharpoonup> Job) \<Rightarrow> (string \<rightharpoonup> Job)" where
  "mergeLoop cache [] updatedCache = updatedCache"
| "mergeLoop cache (job # rest) updatedCache =
     mergeLoop cache rest
       (updatedCache(id job \<mapsto>
          (case cache (id job) of
             None \<Rightarrow> job
           | Some existingJob \<Rightarrow>
               if truthyStr (description existingJob) then mergeJob existingJob job else job)))"

text \<open>
  The \<open>catch\<close> block: the message is set when \<open>jobs.length === 0\<close> holds of the
  captured \<open>jobs\<close>.
\<close>

definition refreshCatch :: "closure \<Rightarrow> world \<Rightarrow> world" where
  "refreshCatch c w =
     (if lengthZero (jobs c)
      then w\<lparr> st_error := Some ''Failed to load data. Please check your connection and try again.'' \<rparr>
      else w)"

text \<open>The \<open>finally\<close> block.\<close>

definition refreshFinally :: "bool \<Rightarrow> world \<Rightarrow> world" where
  "refreshFinally showRefreshIndicator w =
     (if showRefreshIndicator then w\<lparr> st_isRefreshing := False, st_isLoading := False \<rparr>
      else w\<lparr> st_isLoading := False \<rparr>)"

text \<open>
  \<open>refreshFromApi\<close>, run by the closure \<open>c\<close> on the world \<open>w\<close>. \<open>setCategories\<close> stores a
  constant list and is left out. The offline branch resets the indicators itself and
  then passes through the \<open>finally\<close> block. When \<open>jobsData\<close> is not an array,
  \<open>jobsData.forEach\<close> is not a function and the call throws into the \<open>catch\<close> block,
  after \<open>saveJobs\<close> and \<open>updateLastSyncTime\<close>. The returned promise always resolves.
\<close>

definition refreshFromApi :: "env \<Rightarrow> bool \<Rightarrow> closure \<Rightarrow> world \<Rightarrow> world" where
  "refreshFromApi e showRefreshIndicator c w =
     (let w1 = (if showRefreshIndicator then w\<lparr> st_isRefreshing := True \<rparr> else w) in
      if isConnected e \<noteq> Some True then
        refreshFinally showRefreshIndicator
          (refreshFinally showRefreshIndicator
             (w1\<lparr> st_isOffline := True,
                   st_error := Some ''No internet connection. Using cached data.'' \<rparr>))
      else
        (let w2 = w1\<lparr> st_isOffline := False, trace := trace w1 @ [FetchJobsCall] \<rparr> in
         case fetchJobs (replyJobs e) of
           Inl err \<Rightarrow> refreshFinally showRefreshIndicator (refreshCatch c w2)
         | Inr (jobsData, n) \<Rightarrow>
             (let w3 = w2\<lparr> st_jobs := jobsData \<rparr> in
              case saveJobs e jobsData w3 of
                (Inl err, w4) \<Rightarrow> refreshFinally showRefreshIndicator (refreshCatch c w4)
              | (Inr u, w4) \<Rightarrow>
                  (let w5 = updateLastSyncTime e w4 in
                   case jobsData of
                     NotArray v \<Rightarrow> refreshFinally showRefreshIndicator (refreshCatch c w5)
                   | JobArray js \<Rightarrow>
                       (let updatedCache = mergeLoop (jobsCache c) js (jobsCache c);
                            w6 = w5\<lparr> st_jobsCache := updatedCache,
                                      trace := trace w5 @ [CacheWrite (map id js)],
                                      st_error := None \<rparr>
                        in refreshFinally showRefreshIndicator w6)))))"

text \<open>
  \<open>refreshJobs\<close> is \<open>useCallback(async () => { await refreshFromApi(true) }, [])\<close>: with
  the empty dependency list it stays the function of the first render and calls that
  render's \<open>refreshFromApi\<close>.
\<close>

definition refreshJobs :: "env \<Rightarrow> world \<Rightarrow> world" where
  "refreshJobs e w = refreshFromApi e True firstRender w"

text \<open>
  The world \<open>saveJobs\<close> is called on in \<open>refreshFromApi\<close>: after \<open>setIsOffline(false)\<close>,
  the call of \<open>fetchJobs\<close> and \<open>setJobs(jobsData)\<close>.
\<close>

definition beforeSave :: "bool \<Rightarrow> jobsValue \<Rightarrow> world \<Rightarrow> world" where
  "beforeSave s jobsData w =
     (if s then w\<lparr> st_isRefreshing := True \<rparr> else w)
       \<lparr> st_isOffline := False, trace := trace w @ [FetchJobsCall], st_jobs := jobsData \<rparr>"

subsection \<open>\<open>getJobById\<close>\<close>

text \<open>
  The part of \<open>getJobById\<close> that runs before its first \<open>await\<close>: the detailed record of
  the captured cache, else the pending fetch of the captured table, else go on.
\<close>

datatype check = Cached Job | Pending "Job promise" | Continue

definition getJobByIdChecks :: "closure \<Rightarrow> string \<Rightarrow> check" where
  "getJobByIdChecks c i =
     (case jobsCache c i of
        Some j \<Rightarrow>
          if truthyStr (description j) then Cached j
          else (case pendingFetches c i of Some p \<Rightarrow> Pending p | None \<Rightarrow> Continue)
      | None \<Rightarrow> (case pendingFetches c i of Some p \<Rightarrow> Pending p | None \<Rightarrow> Continue))"

text \<open>
  The record of the local database, when the read succeeds and the record has a truthy
  \<open>description\<close>; a throw of the read is logged and the function goes on.
\<close>

definition localDetailed :: "env \<Rightarrow> string \<Rightarrow> world \<Rightarrow> Job option" where
  "localDetailed e i w =
     (case Database_getJobById e i w of
        Inl err \<Rightarrow> None
      | Inr None \<Rightarrow> None
      | Inr (Some localJob) \<Rightarrow> if truthyStr (description localJob) then Some localJob else None)"

text \<open>
  The rest of \<open>getJobById\<close>, once the read of the local database has given \<open>localJob\<close>.
  \<open>Inl\<close> is a rejected promise, \<open>Inr None\<close> one resolved with \<open>undefined\<close>. The
  \<open>saveJobs\<close> of the fetched record is started after \<open>setJobsCache\<close> and not awaited;
  its error is logged.
\<close>

definition getJobByIdAfterRead ::
    "env \<Rightarrow> closure \<Rightarrow> string \<Rightarrow> Job option \<Rightarrow> world \<Rightarrow> Job option result \<times> world" where
  "getJobByIdAfterRead e c i localJob w =
     (case localJob of
        Some lj \<Rightarrow>
          (Inr (Some lj),
           w\<lparr> st_jobsCache := (st_jobsCache w)(i \<mapsto> lj),
              trace := trace w @ [CacheWrite [i]] \<rparr>)
      | None \<Rightarrow>
          if isConnected e \<noteq> Some True then
            (case jobsCache c i of
               Some j \<Rightarrow> (Inr (Some j), w\<lparr> st_isOffline := True \<rparr>)
             | None \<Rightarrow>
                 (Inl (Error ''No internet connection. Please connect to a network and try again.''),
                  w\<lparr> st_isOffline := True \<rparr>))
          else
            (let w1 = w\<lparr> st_isOffline := False, trace := trace w @ [FetchJobByIdCall i] \<rparr>;
                 fetchPromise = fetchJobById (dateNow e) (replyJob e i) i;
                 w2 = w1\<lparr> st_pendingFetches := (st_pendingFetches w1)(i \<mapsto> fetchPromise) \<rparr>
             in case fetchPromise of
                  Inr jobData \<Rightarrow>
                    (let w3 = w2\<lparr> st_jobsCache := (st_jobsCache w2)(i \<mapsto> jobData),
                                  trace := trace w2 @ [CacheWrite [i]] \<rparr>;
                         w4 = snd (saveJobs e (JobArray [jobData]) w3);
                         w5 = w4\<lparr> st_pendingFetches := (st_pendingFetches w4)(i := None) \<rparr>
                     in (Inr (Some jobData), w5))
                | Inl err \<Rightarrow>
                    (Inr (jobsCache c i),
                     w2\<lparr> st_pendingFetches := (st_pendingFetches w2)(i := None) \<rparr>)))"

text \<open>
  \<open>getJobById\<close>, run by the closure \<open>c\<close> on the world \<open>w\<close> with nothing else running in
  between.
\<close>

definition getJobById :: "env \<Rightarrow> closure \<Rightarrow> string \<Rightarrow> world \<Rightarrow> Job option result \<times> world" where
  "getJobById e c i w =
     (case getJobByIdChecks c i of
        Cached j \<Rightarrow> (Inr (Some j), w)
      | Pending p \<Rightarrow> (map_sum (\<lambda>err. err) Some p, w)
      | Continue \<Rightarrow> getJobByIdAfterRead e c i (localDetailed e i w) w)"

text \<open>
  Two calls of \<open>getJobById(i)\<close> made in the same tick by the closure \<open>c\<close>. Each call runs
  to its first \<open>await\<close> before any continuation runs, so both make their checks on
  \<open>c\<close>, and both reads of the local database are issued before either call goes on
  to the network; then the two continuations run, the first call's before the
  second's.
\<close>

definition getJobByIdTwice ::
    "env \<Rightarrow> closure \<Rightarrow> string \<Rightarrow> world \<Rightarrow> (Job option result \<times> Job option result) \<times> world" where
  "getJobByIdTwice e c i w =
     (case getJobByIdChecks c i of
        Cached j \<Rightarrow> ((Inr (Some j), Inr (Some j)), w)
      | Pending p \<Rightarrow> ((map_sum (\<lambda>err. err) Some p, map_sum (\<lambda>err. err) Some p), w)
      | Continue \<Rightarrow>
          (let localJob1 = localDetailed e i w;
               localJob2 = localDetailed e i w;
               (r1, w1) = getJobByIdAfterRead e c i localJob1 w;
               (r2, w2) = getJobByIdAfterRead e c i localJob2 w1
           in ((r1, r2), w2)))"

text \<open>The number of calls of \<open>fetchJobById(i)\<close> in a trace.\<close>

definition fetchCalls :: "string \<Rightarrow> event list \<Rightarrow> nat" where
  "fetchCalls i evs = length (filter (\<lambda>ev. ev = FetchJobByIdCall i) evs)"


section \<open>The properties the specification words\<close>


text \<open>
  Memory before store: every id a \<open>StoreWrite\<close> of the trace writes has been written
  by an earlier \<open>CacheWrite\<close> (the ids in \<open>seen\<close> count as written before the trace).
\<close>

fun memoryFirst :: "string list \<Rightarrow> event list \<Rightarrow> bool" where
  "memoryFirst seen [] = True"
| "memoryFirst seen (CacheWrite ids # evs) = memoryFirst (ids @ seen) evs"
| "memoryFirst seen (StoreWrite ids # evs) =
     (list_all (\<lambda>i. i \<in> set seen) ids \<and> memoryFirst seen evs)"
| "memoryFirst seen (FetchJobsCall # evs) = memoryFirst seen evs"
| "memoryFirst seen (FetchJobByIdCall i # evs) = memoryFirst seen evs"
| "memoryFirst seen (TimestampWrite # evs) = memoryFirst seen evs"

text \<open>
  Featured descending, then posted date descending, on the records \<open>getJobs\<close> returns:
  \<open>jobBefore a b\<close> when \<open>a\<close> may stand before \<open>b\<close>.
\<close>

definition featuredRank :: "Job \<Rightarrow> nat" where
  "featuredRank j = (if featured j = Some True then 1 else 0)"

definition postedText :: "Job \<Rightarrow> string option" where
  "postedText j = (case postedDate j of PostedString s \<Rightarrow> Some s | _ \<Rightarrow> None)"

definition jobBefore :: "Job \<Rightarrow> Job \<Rightarrow> bool" where
  "jobBefore a b =
     (featuredRank b < featuredRank a
      \<or> (featuredRank a = featuredRank b \<and> postedText b \<le> postedText a))"

text \<open>The tables \<open>saveJobs\<close> produces hold 0 or 1 in \<open>featured\<close>.\<close>

definition featuredIsFlag :: "row list \<Rightarrow> bool" where
  "featuredIsFlag t = list_all (\<lambda>r. row_featured r = 0 \<or> row_featured r = 1) t"

section \<open>Sample inputs\<close>

text \<open>A summary record, as the catalog delivers it: no description, requirements or benefits.\<close>

definition summaryJob :: "string \<Rightarrow> string \<Rightarrow> bool \<Rightarrow> string \<Rightarrow> Job" where
  "summaryJob i t f d =
     \<lparr> id = i, underscore_id = None, title = t, company = ''Acme'', companyLogo = LogoNull,
       location = ''Lahore'', jobType = ''full-time'', salary = JString ''100k'',
       workplace = Some ''On-site'', description = None, requirements = None, benefits = None,
       postedDate = PostedString d, featured = Some f, category = Some ''design'' \<rparr>"

definition sampleCatalog :: "Job list" where
  "sampleCatalog =
     [summaryJob ''1'' ''Designer'' False ''2024-01-10'',
      summaryJob ''2'' ''Engineer'' True ''2024-01-05'',
      summaryJob ''3'' ''Writer'' False ''2024-02-01'']"

text \<open>
  An environment in which everything works: online, the catalog of three records, a
  driver that refuses arrays and dates and binds \<open>undefined\<close> as \<open>NULL\<close>, and a
  \<open>JSON.parse\<close> that throws on the texts it is given.
\<close>

definition sampleEnv :: env where
  "sampleEnv =
     \<lparr> dateNow = 1700000000000, isConnected = Some True,
       replyJobs = JobsData (JobArray sampleCatalog) 3, replyJob = (\<lambda>i. JobStatus 404),
       getItemThrows = False, setItemThrows = False,
       openThrows = False, beginThrows = False, commitThrows = False,
       bindArray = (\<lambda>xs. Refused), bindDate = (\<lambda>d. Refused), bindUndefined = BoundNull,
       JSON_stringify = (\<lambda>v. ''{}''), JSON_parse = (\<lambda>s. None) \<rparr>"

text \<open>The provider right after \<open>initDatabase\<close> on a new installation.\<close>

definition emptyWorld :: world where
  "emptyWorld =
     \<lparr> st_jobs = JobArray [], st_jobsCache = Map.empty, st_pendingFetches = Map.empty,
       st_error = None, st_isLoading = True, st_isRefreshing = False, st_isOffline = False,
       db_jobs = [], item_lastSync = None, trace = [] \<rparr>"

text \<open>
  Scenario B: the cache holds a detailed record for id 42; the catalog delivers a
  summary record for it with a new title, posting date and featured flag.
\<close>

definition detailed42 :: Job where
  "detailed42 =
     (summaryJob ''42'' ''Old Title'' False ''2024-01-01'')
       \<lparr> description := Some ''Design the listing pages.'',
          requirements := Some (TextList [''Figma'', ''Sketch'']),
          benefits := Some (Text ''Health insurance'') \<rparr>"

definition incoming42 :: Job where
  "incoming42 = summaryJob ''42'' ''New Title'' True ''2024-03-01''"



text \<open>
  A populated provider whose refresh delivers a record that \<open>saveJobs\<close> cannot write:
  its \<open>requirements\<close> is an array, which the driver of \<open>sampleEnv\<close> refuses.
\<close>

definition listJob :: Job where
  "listJob = (summaryJob ''9'' ''Analyst'' False ''2024-04-01'')
               \<lparr> requirements := Some (TextList [''SQL'']) \<rparr>"

definition populatedWorld :: world where
  "populatedWorld =
     emptyWorld\<lparr> st_jobs := JobArray [summaryJob ''1'' ''Designer'' False ''2024-01-10''],
                  st_jobsCache := [''1'' \<mapsto> summaryJob ''1'' ''Designer'' False ''2024-01-10''],
                  item_lastSync := Some ''1690000000000'' \<rparr>"

definition unsavableEnv :: env where
  "unsavableEnv =
     sampleEnv\<lparr> replyJobs :=
        JobsData (JobArray [summaryJob ''1'' ''Designer'' False ''2024-01-10'', listJob]) 2 \<rparr>"


text \<open>What \<open>getJobs\<close> reads back for a summary record saved under \<open>sampleEnv\<close>.\<close>

definition storedSummary :: "string \<Rightarrow> string \<Rightarrow> bool \<Rightarrow> string \<Rightarrow> Job" where
  "storedSummary i t f d =
     (summaryJob i t f d)
       \<lparr> companyLogo := LogoUndefined, workplace := None, description := Some [],
          requirements := Some (Text []) \<rparr>"

text \<open>
  The requests each function treats as failed: for the catalog, a rejected \<open>fetch\<close>, a
  status that is not \<open>ok\<close>, a body that is not JSON and a body whose \<open>jobs\<close> is \<open>null\<close>
  or missing; for a single job, anything but a body with a title and a company.
\<close>

fun failingJobsReply :: "jobsReply \<Rightarrow> bool" where
  "failingJobsReply (JobsData js n) = False"
| "failingJobsReply JobsNetworkError = True"
| "failingJobsReply (JobsStatus st) = True"
| "failingJobsReply JobsBadJson = True"
| "failingJobsReply JobsNoList = True"

fun failingJobReply :: "jobReply \<Rightarrow> bool" where
  "failingJobReply (JobBody jd) = (title jd = [] \<or> company jd = [])"
| "failingJobReply JobNetworkError = True"
| "failingJobReply (JobStatus st) = True"
| "failingJobReply JobBadJson = True"
| "failingJobReply JobNotObject = True"

text \<open>A detailed record whose requirements and benefits are texts.\<close>

definition textJob :: Job where
  "textJob =
     (summaryJob ''42'' ''Old Title'' False ''2024-01-01'')
       \<lparr> description := Some ''Design the listing pages.'',
          requirements := Some (Text ''Figma''),
          benefits := Some (Text ''Health insurance'') \<rparr>"

definition offlineEnv :: env where
  "offlineEnv = sampleEnv\<lparr> isConnected := Some False \<rparr>"


text \<open>
  A provider whose cache holds the summary record for id 42, and a network that
  answers the detail request for it with a record \<open>saveJobs\<close> can write.
\<close>

definition summaryWorld42 :: world where
  "summaryWorld42 = emptyWorld\<lparr> st_jobsCache := [''42'' \<mapsto> incoming42] \<rparr>"

definition detailEnv :: env where
  "detailEnv = sampleEnv\<lparr> replyJob := (\<lambda>i. JobBody textJob) \<rparr>"

text \<open>A driver that binds an array as the text of its elements joined by commas.\<close>

fun joinCommas :: "string list \<Rightarrow> string" where
  "joinCommas [] = []"
| "joinCommas [x] = x"
| "joinCommas (x # y # ys) = x @ '','' @ joinCommas (y # ys)"

definition joiningEnv :: env where
  "joiningEnv = sampleEnv\<lparr> bindArray := (\<lambda>xs. BoundText (joinCommas xs)) \<rparr>"

section \<open>Decimal text of a timestamp\<close>









section \<open>Staleness\<close>






section \<open>The ordered read\<close>

lemma rowBefore_total: "\<not> rowBefore a b \<Longrightarrow> rowBefore b a"
  by (auto simp: rowBefore_def)

lemma rowBefore_trans: "rowBefore a b \<Longrightarrow> rowBefore b c \<Longrightarrow> rowBefore a c"
  by (auto simp: rowBefore_def)

lemma set_insertOrdered: "set (insertOrdered r xs) = insert r (set xs)"
  by (induction xs) auto

lemma mset_insertOrdered: "mset (insertOrdered r xs) = add_mset r (mset xs)"
  by (induction xs) auto

lemma sorted_insertOrdered:
  "sorted_wrt rowBefore xs \<Longrightarrow> sorted_wrt rowBefore (insertOrdered r xs)"
proof (induction xs)
  case Nil
  then show ?case by simp
next
  case (Cons x xs)
  show ?case
  proof (cases "rowBefore r x")
    case True
    moreover have "\<forall>y\<in>set xs. rowBefore r y"
      using Cons.prems True by (auto intro: rowBefore_trans)
    ultimately show ?thesis using Cons.prems by simp
  next
    case False
    then have "rowBefore x r" by (rule rowBefore_total)
    with False Cons show ?thesis by (auto simp: set_insertOrdered)
  qed
qed

lemma mset_orderRows: "mset (orderRows t) = mset t"
  unfolding orderRows_def by (induction t) (simp_all add: mset_insertOrdered)

lemma sorted_orderRows: "sorted_wrt rowBefore (orderRows t)"
  unfolding orderRows_def by (induction t) (simp_all add: sorted_insertOrdered)

lemma featuredIsFlag_orderRows: "featuredIsFlag (orderRows t) = featuredIsFlag t"
proof -
  have "set (orderRows t) = set t"
    using mset_orderRows [of t] by (metis set_mset_mset)
  then show ?thesis by (simp add: featuredIsFlag_def list_all_iff)
qed

lemma jobBefore_rowJob:
  assumes "rowBefore a b"
    and "row_featured a = 0 \<or> row_featured a = 1"
    and "row_featured b = 0 \<or> row_featured b = 1"
  shows "jobBefore (rowJob e a) (rowJob e b)"
  using assms
  by (auto simp: rowBefore_def jobBefore_def featuredRank_def postedText_def rowJob_def
      split: option.splits)

lemma sorted_map_rowJob:
  "sorted_wrt rowBefore rs \<Longrightarrow> featuredIsFlag rs \<Longrightarrow> sorted_wrt jobBefore (map (rowJob e) rs)"
proof (induction rs)
  case Nil
  then show ?case by simp
next
  case (Cons r rs)
  then have "\<forall>x\<in>set rs. jobBefore (rowJob e r) (rowJob e x)"
    by (auto simp: featuredIsFlag_def list_all_iff intro!: jobBefore_rowJob)
  with Cons show ?case by (simp add: featuredIsFlag_def)
qed

section \<open>What \<open>saveJobs\<close> writes\<close>

lemma insertRow_fields:
  assumes "insertRow e job = Inr r"
  shows "row_id r = id job" and "row_title r = title job" and "row_company r = company job"
    and "row_location r = location job" and "row_type r = jobType job"
    and "row_description r = descriptionParam job"
    and "row_salary r = salaryParam e job"
    and "row_featured r = featuredParam job"
    and "requirementsParam e job = BoundText (row_requirements r)"
    and "categoryParam e job = BoundText (row_category r)"
  using assms by (auto simp: insertRow_def split: bound.splits)

lemma featuredParam_flag: "featuredParam job = 0 \<or> featuredParam job = 1"
  by (simp add: featuredParam_def split: option.splits bool.splits)

lemma find_append_case:
  "find P (xs @ ys) = (case find P xs of None \<Rightarrow> find P ys | Some x \<Rightarrow> Some x)"
  by (induction xs) auto

lemma find_filter_none: "(\<And>x. P x \<Longrightarrow> \<not> Q x) \<Longrightarrow> find P (filter Q xs) = None"
  by (induction xs) auto

lemma find_filter_same: "(\<And>x. P x \<Longrightarrow> Q x) \<Longrightarrow> find P (filter Q xs) = find P xs"
  by (induction xs) auto

lemma find_insertOrReplace:
  "find (\<lambda>x. row_id x = i) (insertOrReplace r t) =
     (if row_id r = i then Some r else find (\<lambda>x. row_id x = i) t)"
proof (cases "row_id r = i")
  case True
  then have "find (\<lambda>x. row_id x = i) (filter (\<lambda>x. row_id x \<noteq> row_id r) t) = None"
    by (intro find_filter_none) simp
  with True show ?thesis by (simp add: insertOrReplace_def find_append_case)
next
  case False
  then have "find (\<lambda>x. row_id x = i) (filter (\<lambda>x. row_id x \<noteq> row_id r) t)
      = find (\<lambda>x. row_id x = i) t"
    by (intro find_filter_same) auto
  with False show ?thesis
    by (simp add: insertOrReplace_def find_append_case split: option.splits)
qed

lemma runInserts_find:
  "runInserts e js t = Inr t' \<Longrightarrow>
   find (\<lambda>x. row_id x = i) t' =
     (case find (\<lambda>j. id j = i) (rev js) of
        None \<Rightarrow> find (\<lambda>x. row_id x = i) t
      | Some job \<Rightarrow> (case insertRow e job of Inl err \<Rightarrow> None | Inr r \<Rightarrow> Some r))"
proof (induction js arbitrary: t)
  case Nil
  then show ?case by simp
next
  case (Cons job rest)
  from Cons.prems obtain r where r: "insertRow e job = Inr r"
    and rest: "runInserts e rest (insertOrReplace r t) = Inr t'"
    by (auto split: sum.splits)
  have idr: "row_id r = id job" using r by (rule insertRow_fields)
  show ?case
    using Cons.IH [OF rest] r idr
    by (auto simp: find_append_case find_insertOrReplace split: option.splits)
qed

lemma featuredIsFlag_insertOrReplace:
  "featuredIsFlag t \<Longrightarrow> row_featured r = 0 \<or> row_featured r = 1 \<Longrightarrow>
   featuredIsFlag (insertOrReplace r t)"
  by (auto simp: featuredIsFlag_def insertOrReplace_def list_all_iff)

lemma featuredIsFlag_runInserts:
  "runInserts e js t = Inr t' \<Longrightarrow> featuredIsFlag t \<Longrightarrow> featuredIsFlag t'"
proof (induction js arbitrary: t)
  case Nil
  then show ?case by simp
next
  case (Cons job rest)
  from Cons.prems obtain r where r: "insertRow e job = Inr r"
    and rest: "runInserts e rest (insertOrReplace r t) = Inr t'"
    by (auto split: sum.splits)
  have "row_featured r = 0 \<or> row_featured r = 1"
    using insertRow_fields(8) [OF r] featuredParam_flag [of job] by simp
  then show ?case
    using Cons.IH [OF rest] Cons.prems(2) by (simp add: featuredIsFlag_insertOrReplace)
qed

lemma featuredIsFlag_runCharInserts:
  "runCharInserts e s t = Inr t' \<Longrightarrow> featuredIsFlag t \<Longrightarrow> featuredIsFlag t'"
proof (induction s arbitrary: t)
  case Nil
  then show ?case by simp
next
  case (Cons ch rest)
  from Cons.prems obtain r where r: "insertUndefined e = Inr r"
    and rest: "runCharInserts e rest (insertOrReplace r t) = Inr t'"
    by (auto split: sum.splits)
  have "row_featured r = 0"
    using r by (auto simp: insertUndefined_def split: bound.splits)
  then show ?case
    using Cons.IH [OF rest] Cons.prems(2) by (simp add: featuredIsFlag_insertOrReplace)
qed

lemma featuredIsFlag_runLoop:
  "runLoop e js t = Inr t' \<Longrightarrow> featuredIsFlag t \<Longrightarrow> featuredIsFlag t'"
proof (cases js)
  case (JobArray xs)
  then show "runLoop e js t = Inr t' \<Longrightarrow> featuredIsFlag t \<Longrightarrow> featuredIsFlag t'"
    by (simp add: featuredIsFlag_runInserts)
next
  case (NotArray v)
  then show "runLoop e js t = Inr t' \<Longrightarrow> featuredIsFlag t \<Longrightarrow> featuredIsFlag t'"
    by (cases v) (simp_all add: featuredIsFlag_runCharInserts)
qed

lemma saveJobs_cases:
  "(fst (saveJobs e js w) = Inr () \<and> lengthZero js \<and> snd (saveJobs e js w) = w)
   \<or> (\<exists>t. fst (saveJobs e js w) = Inr () \<and> \<not> lengthZero js
        \<and> transaction e js (db_jobs w) = Inr t
        \<and> snd (saveJobs e js w) =
            w\<lparr> db_jobs := t, trace := trace w @ [StoreWrite (writtenIds e js)] \<rparr>)
   \<or> (\<exists>err. fst (saveJobs e js w) = Inl err \<and> \<not> lengthZero js
        \<and> transaction e js (db_jobs w) = Inl err
        \<and> snd (saveJobs e js w) = w)"
  by (auto simp: saveJobs_def split: sum.splits)

lemma transaction_Inr:
  "transaction e js t = Inr t' \<Longrightarrow>
   runLoop e js t = Inr t' \<and> \<not> openThrows e \<and> \<not> beginThrows e \<and> \<not> commitThrows e"
  by (auto simp: transaction_def split: if_splits sum.splits)

lemma featuredIsFlag_saveJobs:
  "featuredIsFlag (db_jobs w) \<Longrightarrow> featuredIsFlag (db_jobs (snd (saveJobs e js w)))"
  using saveJobs_cases [of e js w]
  by (auto dest!: transaction_Inr dest: featuredIsFlag_runLoop)

section \<open>The branches of \<open>refreshFromApi\<close>\<close>

lemma saveJobs_fst_frame:
  "db_jobs w' = db_jobs w \<Longrightarrow> fst (saveJobs e js w') = fst (saveJobs e js w)"
  by (simp add: saveJobs_def split: sum.splits)

lemma saveJobs_db_frame:
  "db_jobs w' = db_jobs w \<Longrightarrow> db_jobs (snd (saveJobs e js w')) = db_jobs (snd (saveJobs e js w))"
  by (simp add: saveJobs_def split: sum.splits)

lemma saveJobs_failed:
  "fst (saveJobs e js w) = Inl err \<Longrightarrow> snd (saveJobs e js w) = w \<and> \<not> lengthZero js"
  by (auto simp: saveJobs_def split: sum.splits if_splits)

lemma saveJobs_cells:
  "st_jobs (snd (saveJobs e js w)) = st_jobs w"
  "st_jobsCache (snd (saveJobs e js w)) = st_jobsCache w"
  "st_pendingFetches (snd (saveJobs e js w)) = st_pendingFetches w"
  "st_error (snd (saveJobs e js w)) = st_error w"
  "st_isLoading (snd (saveJobs e js w)) = st_isLoading w"
  "st_isRefreshing (snd (saveJobs e js w)) = st_isRefreshing w"
  "st_isOffline (snd (saveJobs e js w)) = st_isOffline w"
  "item_lastSync (snd (saveJobs e js w)) = item_lastSync w"
  by (simp_all add: saveJobs_def split: sum.splits)

lemma saveJobs_trace:
  "trace (snd (saveJobs e js w)) =
     trace w @ (if \<not> lengthZero js \<and> fst (saveJobs e js w) = Inr ()
                then [StoreWrite (writtenIds e js)] else [])"
  by (simp add: saveJobs_def split: sum.splits)

lemma refreshFinally_fields:
  "st_jobs (refreshFinally s w) = st_jobs w"
  "st_jobsCache (refreshFinally s w) = st_jobsCache w"
  "st_pendingFetches (refreshFinally s w) = st_pendingFetches w"
  "st_error (refreshFinally s w) = st_error w"
  "st_isOffline (refreshFinally s w) = st_isOffline w"
  "db_jobs (refreshFinally s w) = db_jobs w"
  "item_lastSync (refreshFinally s w) = item_lastSync w"
  "trace (refreshFinally s w) = trace w"
  "st_isLoading (refreshFinally s w) = False"
  by (simp_all add: refreshFinally_def)

lemma refreshCatch_fields:
  "st_jobs (refreshCatch c w) = st_jobs w"
  "st_jobsCache (refreshCatch c w) = st_jobsCache w"
  "st_pendingFetches (refreshCatch c w) = st_pendingFetches w"
  "st_isOffline (refreshCatch c w) = st_isOffline w"
  "db_jobs (refreshCatch c w) = db_jobs w"
  "item_lastSync (refreshCatch c w) = item_lastSync w"
  "trace (refreshCatch c w) = trace w"
  "st_error (refreshCatch c w) =
     (if lengthZero (jobs c)
      then Some ''Failed to load data. Please check your connection and try again.''
      else st_error w)"
  by (simp_all add: refreshCatch_def)

lemma updateLastSyncTime_fields:
  "st_jobs (updateLastSyncTime e w) = st_jobs w"
  "st_jobsCache (updateLastSyncTime e w) = st_jobsCache w"
  "st_pendingFetches (updateLastSyncTime e w) = st_pendingFetches w"
  "st_error (updateLastSyncTime e w) = st_error w"
  "st_isOffline (updateLastSyncTime e w) = st_isOffline w"
  "db_jobs (updateLastSyncTime e w) = db_jobs w"
  "item_lastSync (updateLastSyncTime e w) =
     (if setItemThrows e then item_lastSync w else Some (toString (dateNow e)))"
  "trace (updateLastSyncTime e w) = trace w @ (if setItemThrows e then [] else [TimestampWrite])"
  by (simp_all add: updateLastSyncTime_def)

lemma refreshFromApi_online:
  assumes "isConnected e = Some True" and "fetchJobs (replyJobs e) = Inr (jobsData, n)"
  shows "refreshFromApi e s c w =
     (case saveJobs e jobsData (beforeSave s jobsData w) of
        (Inl err, w4) \<Rightarrow> refreshFinally s (refreshCatch c w4)
      | (Inr u, w4) \<Rightarrow>
          (case jobsData of
             NotArray v \<Rightarrow> refreshFinally s (refreshCatch c (updateLastSyncTime e w4))
           | JobArray js \<Rightarrow>
               refreshFinally s
                 ((updateLastSyncTime e w4)
                    \<lparr> st_jobsCache := mergeLoop (jobsCache c) js (jobsCache c),
                       trace := trace (updateLastSyncTime e w4) @ [CacheWrite (map id js)],
                       st_error := None \<rparr>)))"
  using assms
  by (cases s)
    (simp_all add: refreshFromApi_def beforeSave_def Let_def
      split: prod.splits sum.splits jobsValue.splits)

lemma beforeSave_fields:
  "db_jobs (beforeSave s js w) = db_jobs w"
  "item_lastSync (beforeSave s js w) = item_lastSync w"
  "st_jobsCache (beforeSave s js w) = st_jobsCache w"
  "st_error (beforeSave s js w) = st_error w"
  "st_jobs (beforeSave s js w) = js"
  "trace (beforeSave s js w) = trace w @ [FetchJobsCall]"
  by (simp_all add: beforeSave_def)

lemma refreshFromApi_saved_store:
  assumes "isConnected e = Some True" and "fetchJobs (replyJobs e) = Inr (jobsData, n)"
    and "fst (saveJobs e jobsData w) = Inr ()"
  shows "db_jobs (refreshFromApi e s c w) = db_jobs (snd (saveJobs e jobsData w))"
    and "item_lastSync (refreshFromApi e s c w) =
           (if setItemThrows e then item_lastSync w else Some (toString (dateNow e)))"
    and "st_jobs (refreshFromApi e s c w) = jobsData"
proof -
  let ?b = "beforeSave s jobsData w"
  have f: "fst (saveJobs e jobsData ?b) = Inr ()"
    using assms(3) saveJobs_fst_frame [of ?b w e jobsData] by (simp add: beforeSave_fields)
  then obtain w4 where w4: "saveJobs e jobsData ?b = (Inr (), w4)"
    by (cases "saveJobs e jobsData ?b") auto
  then have s4: "w4 = snd (saveJobs e jobsData ?b)" by simp
  note r = refreshFromApi_online [OF assms(1,2), of s c w, unfolded w4, simplified]
  show "db_jobs (refreshFromApi e s c w) = db_jobs (snd (saveJobs e jobsData w))"
    using saveJobs_db_frame [of ?b w e jobsData]
    by (cases jobsData)
      (simp_all add: r refreshFinally_fields refreshCatch_fields updateLastSyncTime_fields s4
        beforeSave_fields)
  show "item_lastSync (refreshFromApi e s c w) =
           (if setItemThrows e then item_lastSync w else Some (toString (dateNow e)))"
    by (cases jobsData)
      (simp_all add: r refreshFinally_fields refreshCatch_fields updateLastSyncTime_fields s4
        saveJobs_cells beforeSave_fields)
  show "st_jobs (refreshFromApi e s c w) = jobsData"
    by (cases jobsData)
      (simp_all add: r refreshFinally_fields refreshCatch_fields updateLastSyncTime_fields s4
        saveJobs_cells beforeSave_fields)
qed

lemma refreshFromApi_saved:
  assumes "isConnected e = Some True"
    and "fetchJobs (replyJobs e) = Inr (JobArray jobsData, n)"
    and "fst (saveJobs e (JobArray jobsData) w) = Inr ()"
  shows "st_jobsCache (refreshFromApi e s c w) = mergeLoop (jobsCache c) jobsData (jobsCache c)"
    and "st_jobs (refreshFromApi e s c w) = JobArray jobsData"
    and "db_jobs (refreshFromApi e s c w) = db_jobs (snd (saveJobs e (JobArray jobsData) w))"
    and "item_lastSync (refreshFromApi e s c w) =
           (if setItemThrows e then item_lastSync w else Some (toString (dateNow e)))"
    and "st_error (refreshFromApi e s c w) = None"
    and "trace (refreshFromApi e s c w) =
           trace w @ [FetchJobsCall]
             @ (if jobsData = [] then [] else [StoreWrite (map id jobsData)])
             @ (if setItemThrows e then [] else [TimestampWrite])
             @ [CacheWrite (map id jobsData)]"
proof -
  let ?b = "beforeSave s (JobArray jobsData) w"
  have f: "fst (saveJobs e (JobArray jobsData) ?b) = Inr ()"
    using assms(3) saveJobs_fst_frame [of ?b w e "JobArray jobsData"]
    by (simp add: beforeSave_fields)
  then obtain w4 where w4: "saveJobs e (JobArray jobsData) ?b = (Inr (), w4)"
    by (cases "saveJobs e (JobArray jobsData) ?b") auto
  then have s4: "w4 = snd (saveJobs e (JobArray jobsData) ?b)" by simp
  note r = refreshFromApi_online [OF assms(1,2), of s c w, unfolded w4, simplified]
  show "st_jobsCache (refreshFromApi e s c w) = mergeLoop (jobsCache c) jobsData (jobsCache c)"
    by (simp add: r refreshFinally_fields)
  show "st_jobs (refreshFromApi e s c w) = JobArray jobsData"
    by (rule refreshFromApi_saved_store(3) [OF assms])
  show "db_jobs (refreshFromApi e s c w) = db_jobs (snd (saveJobs e (JobArray jobsData) w))"
    by (rule refreshFromApi_saved_store(1) [OF assms])
  show "item_lastSync (refreshFromApi e s c w) =
           (if setItemThrows e then item_lastSync w else Some (toString (dateNow e)))"
    by (rule refreshFromApi_saved_store(2) [OF assms])
  show "st_error (refreshFromApi e s c w) = None"
    by (simp add: r refreshFinally_fields)
  show "trace (refreshFromApi e s c w) =
           trace w @ [FetchJobsCall]
             @ (if jobsData = [] then [] else [StoreWrite (map id jobsData)])
             @ (if setItemThrows e then [] else [TimestampWrite])
             @ [CacheWrite (map id jobsData)]"
    using f
    by (simp add: r refreshFinally_fields updateLastSyncTime_fields s4 saveJobs_trace
        beforeSave_fields)
qed

lemma refreshFromApi_save_failed:
  assumes "isConnected e = Some True" and "fetchJobs (replyJobs e) = Inr (jobsData, n)"
    and "fst (saveJobs e jobsData w) = Inl err"
  shows "st_jobsCache (refreshFromApi e s c w) = st_jobsCache w"
    and "st_jobs (refreshFromApi e s c w) = jobsData"
    and "db_jobs (refreshFromApi e s c w) = db_jobs w"
    and "item_lastSync (refreshFromApi e s c w) = item_lastSync w"
    and "st_error (refreshFromApi e s c w) =
           (if lengthZero (jobs c)
            then Some ''Failed to load data. Please check your connection and try again.''
            else st_error w)"
    and "trace (refreshFromApi e s c w) = trace w @ [FetchJobsCall]"
    and "\<not> lengthZero jobsData"
proof -
  let ?b = "beforeSave s jobsData w"
  have f: "fst (saveJobs e jobsData ?b) = Inl err"
    using assms(3) saveJobs_fst_frame [of ?b w e jobsData] by (simp add: beforeSave_fields)
  then have w4: "saveJobs e jobsData ?b = (Inl err, ?b)"
    using saveJobs_failed [OF f] by (cases "saveJobs e jobsData ?b") auto
  note r = refreshFromApi_online [OF assms(1,2), of s c w, unfolded w4, simplified]
  show "st_jobsCache (refreshFromApi e s c w) = st_jobsCache w"
    and "st_jobs (refreshFromApi e s c w) = jobsData"
    and "db_jobs (refreshFromApi e s c w) = db_jobs w"
    and "item_lastSync (refreshFromApi e s c w) = item_lastSync w"
    and "st_error (refreshFromApi e s c w) =
           (if lengthZero (jobs c)
            then Some ''Failed to load data. Please check your connection and try again.''
            else st_error w)"
    and "trace (refreshFromApi e s c w) = trace w @ [FetchJobsCall]"
    by (simp_all add: r refreshFinally_fields refreshCatch_fields beforeSave_fields)
  show "\<not> lengthZero jobsData" using saveJobs_failed [OF assms(3)] by simp
qed

lemma refreshFromApi_fetch_failed:
  assumes "isConnected e = Some True" and "fetchJobs (replyJobs e) = Inl err"
  shows "st_jobsCache (refreshFromApi e s c w) = st_jobsCache w"
    and "st_jobs (refreshFromApi e s c w) = st_jobs w"
    and "db_jobs (refreshFromApi e s c w) = db_jobs w"
    and "item_lastSync (refreshFromApi e s c w) = item_lastSync w"
    and "st_error (refreshFromApi e s c w) =
           (if lengthZero (jobs c)
            then Some ''Failed to load data. Please check your connection and try again.''
            else st_error w)"
    and "trace (refreshFromApi e s c w) = trace w @ [FetchJobsCall]"
  using assms
  by (simp_all add: refreshFromApi_def Let_def refreshFinally_fields refreshCatch_fields)

lemma refreshFromApi_offline:
  assumes "isConnected e \<noteq> Some True"
  shows "st_jobsCache (refreshFromApi e s c w) = st_jobsCache w"
    and "st_jobs (refreshFromApi e s c w) = st_jobs w"
    and "db_jobs (refreshFromApi e s c w) = db_jobs w"
    and "item_lastSync (refreshFromApi e s c w) = item_lastSync w"
    and "st_error (refreshFromApi e s c w) = Some ''No internet connection. Using cached data.''"
    and "trace (refreshFromApi e s c w) = trace w"
  using assms
  by (simp_all add: refreshFromApi_def Let_def refreshFinally_fields)

section \<open>The merge of a bulk refresh\<close>

lemma mergeLoop_lookup:
  "mergeLoop cache js updatedCache x =
     (case find (\<lambda>j. id j = x) (rev js) of
        None \<Rightarrow> updatedCache x
      | Some job \<Rightarrow>
          (case cache x of
             None \<Rightarrow> Some job
           | Some existingJob \<Rightarrow>
               if truthyStr (description existingJob) then Some (mergeJob existingJob job)
               else Some job))"
proof (induction js arbitrary: updatedCache)
  case Nil
  then show ?case by simp
next
  case (Cons job rest)
  show ?case
    by (simp add: Cons.IH find_append_case split: option.splits)
qed

lemma summary_saved:
  "insertRow sampleEnv (summaryJob i t f d) =
     Inr \<lparr> row_id = i, row_title = t, row_company = ''Acme'', row_location = ''Lahore'',
           row_type = ''full-time'', row_category = ''design'', row_description = [],
           row_requirements = [], row_salary = ''100k'', row_posted_date = Some d,
           row_featured = (if f then 1 else 0),
           row_created_at = 1700000000000, row_updated_at = 1700000000000 \<rparr>"
  by (simp add: insertRow_def categoryParam_def requirementsParam_def postedDateParam_def
      descriptionParam_def salaryParam_def featuredParam_def summaryJob_def sampleEnv_def)

lemma insertRow_env:
  "dateNow e' = dateNow e \<Longrightarrow> bindArray e' = bindArray e \<Longrightarrow> bindDate e' = bindDate e \<Longrightarrow>
   bindUndefined e' = bindUndefined e \<Longrightarrow> JSON_stringify e' = JSON_stringify e \<Longrightarrow>
   insertRow e' job = insertRow e job"
proof -
  assume a: "dateNow e' = dateNow e" "bindArray e' = bindArray e" "bindDate e' = bindDate e"
    "bindUndefined e' = bindUndefined e" "JSON_stringify e' = JSON_stringify e"
  have "categoryParam e' job = categoryParam e job"
    and "requirementsParam e' job = requirementsParam e job"
    and "postedDateParam e' job = postedDateParam e job"
    and "salaryParam e' job = salaryParam e job"
    using a
    by (simp_all add: categoryParam_def requirementsParam_def postedDateParam_def salaryParam_def
        split: option.splits textOrList.splits posted.splits json.splits)
  then show ?thesis using a(1) by (simp add: insertRow_def split: bound.splits)
qed






section \<open>Failures of a bulk refresh\<close>

lemma sampleCatalog_saves: "fst (saveJobs sampleEnv (JobArray sampleCatalog) w) = Inr ()"
  by (simp add: saveJobs_def transaction_def sampleCatalog_def summary_saved)
    (simp add: sampleEnv_def)

lemma sampleEnv_reply:
  "isConnected sampleEnv = Some True"
  "fetchJobs (replyJobs sampleEnv) = Inr (JobArray sampleCatalog, 3)"
  by (simp_all add: sampleEnv_def fetchJobs_def)

lemma unsavableEnv_reply:
  "isConnected unsavableEnv = Some True"
  "fetchJobs (replyJobs unsavableEnv) =
     Inr (JobArray [summaryJob ''1'' ''Designer'' False ''2024-01-10'', listJob], 2)"
  by (simp_all add: unsavableEnv_def sampleEnv_def fetchJobs_def)

lemma listJob_refused: "insertRow sampleEnv listJob = Inl (Thrown ''runAsync'')"
  by (simp add: insertRow_def categoryParam_def requirementsParam_def listJob_def
      summaryJob_def sampleEnv_def)

lemma unsavableEnv_fails:
  "db_jobs w = [] \<Longrightarrow>
   fst (saveJobs unsavableEnv
          (JobArray [summaryJob ''1'' ''Designer'' False ''2024-01-10'', listJob]) w)
     = Inl (Thrown ''runAsync'')"
proof -
  have a: "insertRow unsavableEnv job = insertRow sampleEnv job" for job
    by (rule insertRow_env) (simp_all add: unsavableEnv_def)
  assume "db_jobs w = []"
  then show ?thesis
    by (simp add: saveJobs_def transaction_def a summary_saved listJob_refused)
      (simp add: unsavableEnv_def sampleEnv_def)
qed

text \<open>
  C4. When the catalog was fetched and \<open>saveJobs\<close> throws, the table and the stored
  last-sync timestamp are what they were before the refresh; and whenever a refresh
  changes the stored timestamp, the device was online, the catalog was fetched and
  \<open>saveJobs\<close> succeeded on it, so the timestamp is written only after the table.
\<close>

theorem refreshFromApi_no_clobber:
  "(isConnected e = Some True \<and> fetchJobs (replyJobs e) = Inr (jobsData, n)
      \<and> fst (saveJobs e jobsData w) = Inl err
    \<longrightarrow> db_jobs (refreshFromApi e s c w) = db_jobs w
        \<and> item_lastSync (refreshFromApi e s c w) = item_lastSync w)
   \<and> (item_lastSync (refreshFromApi e s c w) \<noteq> item_lastSync w
    \<longrightarrow> (\<exists>js k. isConnected e = Some True \<and> fetchJobs (replyJobs e) = Inr (js, k)
              \<and> fst (saveJobs e js w) = Inr ()
              \<and> db_jobs (refreshFromApi e s c w) = db_jobs (snd (saveJobs e js w))))"
proof (intro conjI impI)
  assume a: "isConnected e = Some True \<and> fetchJobs (replyJobs e) = Inr (jobsData, n)
      \<and> fst (saveJobs e jobsData w) = Inl err"
  then show "db_jobs (refreshFromApi e s c w) = db_jobs w"
    by (simp add: refreshFromApi_save_failed)
  from a show "item_lastSync (refreshFromApi e s c w) = item_lastSync w"
    by (simp add: refreshFromApi_save_failed)
next
  assume ch: "item_lastSync (refreshFromApi e s c w) \<noteq> item_lastSync w"
  have on: "isConnected e = Some True"
    using ch refreshFromApi_offline(4) [of e s c w] by blast
  obtain js k where f: "fetchJobs (replyJobs e) = Inr (js, k)"
    using ch refreshFromApi_fetch_failed(4) [OF on, of _ s c w]
    by (cases "fetchJobs (replyJobs e)") auto
  have sv: "fst (saveJobs e js w) = Inr ()"
    using ch refreshFromApi_save_failed(4) [OF on f, of w _ s c]
    by (cases "fst (saveJobs e js w)") auto
  have "db_jobs (refreshFromApi e s c w) = db_jobs (snd (saveJobs e js w))"
    by (rule refreshFromApi_saved_store(1) [OF on f sv])
  with on f sv
  show "\<exists>js k. isConnected e = Some True \<and> fetchJobs (replyJobs e) = Inr (js, k)
          \<and> fst (saveJobs e js w) = Inr ()
          \<and> db_jobs (refreshFromApi e s c w) = db_jobs (snd (saveJobs e js w))"
    by blast
qed

theorem refreshFromApi_no_clobber_witness:
  "db_jobs (refreshFromApi unsavableEnv True (render populatedWorld) populatedWorld) = []
   \<and> item_lastSync (refreshFromApi unsavableEnv True (render populatedWorld) populatedWorld)
       = Some ''1690000000000''
   \<and> item_lastSync (refreshFromApi sampleEnv False (render emptyWorld) emptyWorld) \<noteq> None
   \<and> (\<exists>js k. fetchJobs (replyJobs sampleEnv) = Inr (js, k)
         \<and> fst (saveJobs sampleEnv js emptyWorld) = Inr ())"
proof -
  have d: "db_jobs populatedWorld = []" "item_lastSync populatedWorld = Some ''1690000000000''"
    by (simp_all add: populatedWorld_def emptyWorld_def)
  have n: "item_lastSync emptyWorld = None" by (simp add: emptyWorld_def)
  have t: "item_lastSync (refreshFromApi sampleEnv False (render emptyWorld) emptyWorld) \<noteq> None"
  proof -
    have "\<not> setItemThrows sampleEnv" by (simp add: sampleEnv_def)
    then show ?thesis
      by (simp add: refreshFromApi_saved(4) [OF sampleEnv_reply sampleCatalog_saves])
  qed
  show ?thesis
    using refreshFromApi_no_clobber [of unsavableEnv
        "JobArray [summaryJob ''1'' ''Designer'' False ''2024-01-10'', listJob]" 2
        populatedWorld "Thrown ''runAsync''" True "render populatedWorld"]
      refreshFromApi_no_clobber [of sampleEnv "JobArray sampleCatalog" 3 emptyWorld
        "Thrown ''runAsync''" False "render emptyWorld"]
      unsavableEnv_reply unsavableEnv_fails [OF d(1)] d n t
    by auto
qed





section \<open>Scenario A and the round trip through the store\<close>

lemma sampleEnv_flags:
  "\<not> openThrows sampleEnv" "\<not> beginThrows sampleEnv" "\<not> commitThrows sampleEnv"
  "\<not> setItemThrows sampleEnv" "\<not> getItemThrows sampleEnv"
  "JSON_parse sampleEnv = (\<lambda>s. None)" "dateNow sampleEnv = 1700000000000"
  by (simp_all add: sampleEnv_def)

lemma rowJob_summary:
  "rowJob sampleEnv \<lparr> row_id = i, row_title = t, row_company = ''Acme'', row_location = ''Lahore'',
           row_type = ''full-time'', row_category = ''design'', row_description = [],
           row_requirements = [], row_salary = ''100k'', row_posted_date = Some d,
           row_featured = (if f then 1 else 0),
           row_created_at = 1700000000000, row_updated_at = 1700000000000 \<rparr>
   = storedSummary i t f d"
  by (simp add: rowJob_def storedSummary_def summaryJob_def tryParseJSON_def sampleEnv_flags)

lemmas summary_saved_flag =
  summary_saved [where f = True, simplified] summary_saved [where f = False, simplified]

lemmas rowJob_summary_flag =
  rowJob_summary [where f = True, simplified] rowJob_summary [where f = False, simplified]

lemma find_Some_in: "find P xs = Some x \<Longrightarrow> x \<in> set xs"
  by (induction xs) (auto split: if_splits)

lemma scenarioA_table:
  "db_jobs (refreshFromApi sampleEnv False (render emptyWorld) emptyWorld) =
     [\<lparr> row_id = ''1'', row_title = ''Designer'', row_company = ''Acme'', row_location = ''Lahore'',
           row_type = ''full-time'', row_category = ''design'', row_description = [],
           row_requirements = [], row_salary = ''100k'', row_posted_date = Some ''2024-01-10'',
           row_featured = 0,
           row_created_at = 1700000000000, row_updated_at = 1700000000000 \<rparr>,
      \<lparr> row_id = ''2'', row_title = ''Engineer'', row_company = ''Acme'', row_location = ''Lahore'',
           row_type = ''full-time'', row_category = ''design'', row_description = [],
           row_requirements = [], row_salary = ''100k'', row_posted_date = Some ''2024-01-05'',
           row_featured = 1,
           row_created_at = 1700000000000, row_updated_at = 1700000000000 \<rparr>,
      \<lparr> row_id = ''3'', row_title = ''Writer'', row_company = ''Acme'', row_location = ''Lahore'',
           row_type = ''full-time'', row_category = ''design'', row_description = [],
           row_requirements = [], row_salary = ''100k'', row_posted_date = Some ''2024-02-01'',
           row_featured = 0,
           row_created_at = 1700000000000, row_updated_at = 1700000000000 \<rparr>]"
  by (simp add: refreshFromApi_saved(3) [OF sampleEnv_reply sampleCatalog_saves]
      saveJobs_def transaction_def sampleCatalog_def summary_saved_flag sampleEnv_flags
      insertOrReplace_def emptyWorld_def)

text \<open>
  C9. \<open>getJobs\<close> on a table written by \<open>saveJobs\<close> returns every stored record, read
  back through \<open>rowJob\<close>, ordered by featured descending and then by posted date
  descending.
\<close>

theorem getJobs_ordered:
  assumes "\<not> openThrows e" and "featuredIsFlag (db_jobs w)"
  shows "\<exists>js. Database_getJobs e w = Inr js
            \<and> mset js = image_mset (rowJob e) (mset (db_jobs w))
            \<and> sorted_wrt jobBefore js"
proof -
  let ?rs = "orderRows (db_jobs w)"
  have res: "Database_getJobs e w = Inr (map (rowJob e) ?rs)"
    using assms(1) by (simp add: Database_getJobs_def)
  have all: "mset (map (rowJob e) ?rs) = image_mset (rowJob e) (mset (db_jobs w))"
    by (simp add: mset_orderRows)
  have "featuredIsFlag ?rs"
    using assms(2) by (simp add: featuredIsFlag_orderRows)
  then have ord: "sorted_wrt jobBefore (map (rowJob e) ?rs)"
    by (intro sorted_map_rowJob sorted_orderRows)
  from res all ord show ?thesis by blast
qed

theorem getJobs_ordered_witness:
  "Database_getJobs sampleEnv (refreshFromApi sampleEnv False (render emptyWorld) emptyWorld) =
     Inr [storedSummary ''2'' ''Engineer'' True ''2024-01-05'',
          storedSummary ''3'' ''Writer'' False ''2024-02-01'',
          storedSummary ''1'' ''Designer'' False ''2024-01-10'']
   \<and> sorted_wrt jobBefore
        [storedSummary ''2'' ''Engineer'' True ''2024-01-05'',
         storedSummary ''3'' ''Writer'' False ''2024-02-01'',
         storedSummary ''1'' ''Designer'' False ''2024-01-10'']"
proof -
  let ?w = "refreshFromApi sampleEnv False (render emptyWorld) emptyWorld"
  have flag: "featuredIsFlag (db_jobs ?w)"
    by (simp add: scenarioA_table featuredIsFlag_def)
  have ord: "orderRows (db_jobs ?w) =
     [\<lparr> row_id = ''2'', row_title = ''Engineer'', row_company = ''Acme'', row_location = ''Lahore'',
           row_type = ''full-time'', row_category = ''design'', row_description = [],
           row_requirements = [], row_salary = ''100k'', row_posted_date = Some ''2024-01-05'',
           row_featured = 1,
           row_created_at = 1700000000000, row_updated_at = 1700000000000 \<rparr>,
      \<lparr> row_id = ''3'', row_title = ''Writer'', row_company = ''Acme'', row_location = ''Lahore'',
           row_type = ''full-time'', row_category = ''design'', row_description = [],
           row_requirements = [], row_salary = ''100k'', row_posted_date = Some ''2024-02-01'',
           row_featured = 0,
           row_created_at = 1700000000000, row_updated_at = 1700000000000 \<rparr>,
      \<lparr> row_id = ''1'', row_title = ''Designer'', row_company = ''Acme'', row_location = ''Lahore'',
           row_type = ''full-time'', row_category = ''design'', row_description = [],
           row_requirements = [], row_salary = ''100k'', row_posted_date = Some ''2024-01-10'',
           row_featured = 0,
           row_created_at = 1700000000000, row_updated_at = 1700000000000 \<rparr>]"
    by (simp add: scenarioA_table orderRows_def rowBefore_def)
  have res: "Database_getJobs sampleEnv ?w =
     Inr [storedSummary ''2'' ''Engineer'' True ''2024-01-05'',
          storedSummary ''3'' ''Writer'' False ''2024-02-01'',
          storedSummary ''1'' ''Designer'' False ''2024-01-10'']"
    by (simp only: Database_getJobs_def sampleEnv_flags if_False ord list.map rowJob_summary_flag)
  show ?thesis
    using getJobs_ordered [OF sampleEnv_flags(1) flag] res by auto
qed

lemma runInserts_all_ok:
  "runInserts e js t = Inr t' \<Longrightarrow> job \<in> set js \<Longrightarrow> \<exists>r. insertRow e job = Inr r"
proof (induction js arbitrary: t)
  case Nil
  then show ?case by simp
next
  case (Cons a rest)
  from Cons.prems(1) obtain r where r: "insertRow e a = Inr r"
    and rest: "runInserts e rest (insertOrReplace r t) = Inr t'"
    by (auto split: sum.splits)
  show ?case
  proof (cases "job = a")
    case True
    with r show ?thesis by blast
  next
    case False
    with Cons.prems(2) have "job \<in> set rest" by simp
    then show ?thesis using Cons.IH [OF rest] by blast
  qed
qed

lemma rowJob_dropped:
  "benefits (rowJob e r) = None" "workplace (rowJob e r) = None"
  "companyLogo (rowJob e r) = LogoUndefined" "underscore_id (rowJob e r) = None"
  by (simp_all add: rowJob_def)

text \<open>
  C10, as the code has it. A record read from the store, by \<open>getJobs\<close> or by
  \<open>getJobById\<close>, never carries \<open>benefits\<close>, \<open>workplace\<close> or \<open>companyLogo\<close>. After a
  successful \<open>saveJobs\<close>, the last record of the batch for an id reads back, through
  \<open>getJobById\<close> and as a member of the list of \<open>getJobs\<close>, with its description (the
  empty string when it had none) and its summary texts. Its requirements read back
  as text only: the same text for a text, the empty string for none, and for an
  array the text the driver bound for it, not the array.
\<close>

theorem store_roundtrip:
  assumes "fst (saveJobs e (JobArray js) w) = Inr ()"
    and "find (\<lambda>j. id j = id job) (rev js) = Some job"
    and "\<not> openThrows e'"
  shows "(\<exists>j js'. Database_getJobById e' (id job) (snd (saveJobs e (JobArray js) w))
                  = Inr (Some j)
            \<and> Database_getJobs e' (snd (saveJobs e (JobArray js) w)) = Inr js'
            \<and> j \<in> set js'
            \<and> benefits j = None \<and> workplace j = None \<and> companyLogo j = LogoUndefined
            \<and> description j = Some (case description job of None \<Rightarrow> [] | Some d \<Rightarrow> d)
            \<and> (case requirements job of
                  None \<Rightarrow> requirements j = Some (Text [])
                | Some (Text t) \<Rightarrow> requirements j = Some (Text t)
                | Some (TextList xs) \<Rightarrow>
                    (\<exists>t. bindArray e xs = BoundText t \<and> requirements j = Some (Text t)))
            \<and> id j = id job \<and> title j = title job \<and> company j = company job
            \<and> location j = location job \<and> jobType j = jobType job)
       \<and> (\<forall>w' js'. Database_getJobs e' w' = Inr js' \<longrightarrow>
             list_all (\<lambda>j. benefits j = None \<and> workplace j = None
                            \<and> companyLogo j = LogoUndefined) js')
       \<and> (\<forall>w' i j. Database_getJobById e' i w' = Inr (Some j) \<longrightarrow>
             benefits j = None \<and> workplace j = None \<and> companyLogo j = LogoUndefined)"
proof (intro conjI allI impI)
  have mem: "job \<in> set js"
    using find_Some_in [OF assms(2)] by simp
  then have ne: "\<not> lengthZero (JobArray js)" by auto
  from saveJobs_cases [of e "JobArray js" w] assms(1) ne obtain t
    where tr: "transaction e (JobArray js) (db_jobs w) = Inr t"
      and w': "snd (saveJobs e (JobArray js) w) =
                 w\<lparr> db_jobs := t, trace := trace w @ [StoreWrite (writtenIds e (JobArray js))] \<rparr>"
    by auto
  have ri: "runInserts e js (db_jobs w) = Inr t" using transaction_Inr [OF tr] by simp
  obtain r where r: "insertRow e job = Inr r" using runInserts_all_ok [OF ri mem] by blast
  have f: "find (\<lambda>x. row_id x = id job) t = Some r"
    using runInserts_find [OF ri, of "id job"] assms(2) r by simp
  have g: "Database_getJobById e' (id job) (snd (saveJobs e (JobArray js) w))
      = Inr (Some (rowJob e' r))"
    using assms(3) f by (simp add: Database_getJobById_def w')
  have ga: "Database_getJobs e' (snd (saveJobs e (JobArray js) w))
      = Inr (map (rowJob e') (orderRows t))"
    using assms(3) by (simp add: Database_getJobs_def w')
  have "r \<in> set t" using find_Some_in [OF f] .
  then have "r \<in> set (orderRows t)"
    using mset_orderRows [of t] by (metis set_mset_mset)
  then have gm: "rowJob e' r \<in> set (map (rowJob e') (orderRows t))" by simp
  have req: "case requirements job of
                  None \<Rightarrow> requirements (rowJob e' r) = Some (Text [])
                | Some (Text t) \<Rightarrow> requirements (rowJob e' r) = Some (Text t)
                | Some (TextList xs) \<Rightarrow>
                    (\<exists>t. bindArray e xs = BoundText t \<and> requirements (rowJob e' r) = Some (Text t))"
    using insertRow_fields(9) [OF r]
    by (auto simp: requirementsParam_def rowJob_def split: option.splits textOrList.splits)
  have flds: "description (rowJob e' r) = Some (case description job of None \<Rightarrow> [] | Some d \<Rightarrow> d)"
    "id (rowJob e' r) = id job" "title (rowJob e' r) = title job"
    "company (rowJob e' r) = company job" "location (rowJob e' r) = location job"
    "jobType (rowJob e' r) = jobType job"
    using insertRow_fields(1-6) [OF r] by (simp_all add: rowJob_def descriptionParam_def)
  show "\<exists>j js'. Database_getJobById e' (id job) (snd (saveJobs e (JobArray js) w))
                  = Inr (Some j)
            \<and> Database_getJobs e' (snd (saveJobs e (JobArray js) w)) = Inr js'
            \<and> j \<in> set js'
            \<and> benefits j = None \<and> workplace j = None \<and> companyLogo j = LogoUndefined
            \<and> description j = Some (case description job of None \<Rightarrow> [] | Some d \<Rightarrow> d)
            \<and> (case requirements job of
                  None \<Rightarrow> requirements j = Some (Text [])
                | Some (Text t) \<Rightarrow> requirements j = Some (Text t)
                | Some (TextList xs) \<Rightarrow>
                    (\<exists>t. bindArray e xs = BoundText t \<and> requirements j = Some (Text t)))
            \<and> id j = id job \<and> title j = title job \<and> company j = company job
            \<and> location j = location job \<and> jobType j = jobType job"
    using g ga gm req flds rowJob_dropped [of e' r]
    by (intro exI [of _ "rowJob e' r"] exI [of _ "map (rowJob e') (orderRows t)"]) simp
next
  fix w' js'
  assume "Database_getJobs e' w' = Inr js'"
  then have "js' = map (rowJob e') (orderRows (db_jobs w'))"
    by (auto simp: Database_getJobs_def split: if_splits)
  then show "list_all (\<lambda>j. benefits j = None \<and> workplace j = None
                            \<and> companyLogo j = LogoUndefined) js'"
    by (simp add: list_all_iff rowJob_dropped)
next
  fix w' i j
  assume a: "Database_getJobById e' i w' = Inr (Some j)"
  then obtain r where "j = rowJob e' r"
    by (auto simp: Database_getJobById_def split: if_splits option.splits)
  then show "benefits j = None" "workplace j = None" "companyLogo j = LogoUndefined"
    by (simp_all add: rowJob_dropped)
qed

theorem store_roundtrip_witness:
  "(\<exists>j js'. Database_getJobById sampleEnv ''42''
              (snd (saveJobs sampleEnv (JobArray [textJob]) emptyWorld)) = Inr (Some j)
        \<and> Database_getJobs sampleEnv
              (snd (saveJobs sampleEnv (JobArray [textJob]) emptyWorld)) = Inr js'
        \<and> j \<in> set js'
        \<and> benefits j = None \<and> workplace j = None \<and> companyLogo j = LogoUndefined
        \<and> description j = Some ''Design the listing pages.''
        \<and> requirements j = Some (Text ''Figma''))
   \<and> benefits textJob = Some (Text ''Health insurance'')
   \<and> (\<exists>j js'. Database_getJobById sampleEnv ''1''
              (snd (saveJobs sampleEnv (JobArray sampleCatalog) emptyWorld)) = Inr (Some j)
        \<and> Database_getJobs sampleEnv
              (snd (saveJobs sampleEnv (JobArray sampleCatalog) emptyWorld)) = Inr js'
        \<and> j \<in> set js'
        \<and> description j = Some [])"
proof -
  have ins: "insertRow sampleEnv textJob =
     Inr \<lparr> row_id = ''42'', row_title = ''Old Title'', row_company = ''Acme'',
           row_location = ''Lahore'', row_type = ''full-time'', row_category = ''design'',
           row_description = ''Design the listing pages.'', row_requirements = ''Figma'',
           row_salary = ''100k'', row_posted_date = Some ''2024-01-01'', row_featured = 0,
           row_created_at = 1700000000000, row_updated_at = 1700000000000 \<rparr>"
    by (simp add: insertRow_def categoryParam_def requirementsParam_def postedDateParam_def
        descriptionParam_def salaryParam_def featuredParam_def textJob_def summaryJob_def
        sampleEnv_def)
  have sv: "fst (saveJobs sampleEnv (JobArray [textJob]) emptyWorld) = Inr ()"
    by (simp add: saveJobs_def transaction_def ins sampleEnv_flags)
  have f1: "find (\<lambda>j. id j = id textJob) (rev [textJob]) = Some textJob" by simp
  have f2: "find (\<lambda>j. id j = id (summaryJob ''1'' ''Designer'' False ''2024-01-10''))
      (rev sampleCatalog) = Some (summaryJob ''1'' ''Designer'' False ''2024-01-10'')"
    by (simp add: sampleCatalog_def summaryJob_def)
  have t: "id textJob = ''42''" "description textJob = Some ''Design the listing pages.''"
    "requirements textJob = Some (Text ''Figma'')" "benefits textJob = Some (Text ''Health insurance'')"
    by (simp_all add: textJob_def summaryJob_def)
  have u: "id (summaryJob ''1'' ''Designer'' False ''2024-01-10'') = ''1''"
    "description (summaryJob ''1'' ''Designer'' False ''2024-01-10'') = None"
    by (simp_all add: summaryJob_def)
  show ?thesis
    using store_roundtrip [OF sv f1 sampleEnv_flags(1)]
      store_roundtrip [OF sampleCatalog_saves f2 sampleEnv_flags(1), of emptyWorld]
    by (simp add: t u) blast
qed

text \<open>
  A detailed record whose requirements are an array, saved through a driver that
  binds the array as text: the record reads back with a text in \<open>requirements\<close>, not
  with the array it was saved with.
\<close>

theorem store_roundtrip_counterexample:
  "fst (saveJobs joiningEnv (JobArray [detailed42]) emptyWorld) = Inr ()
   \<and> requirements detailed42 = Some (TextList [''Figma'', ''Sketch''])
   \<and> (\<exists>j. Database_getJobById joiningEnv ''42''
              (snd (saveJobs joiningEnv (JobArray [detailed42]) emptyWorld)) = Inr (Some j)
          \<and> requirements j = Some (Text ''Figma,Sketch'')
          \<and> requirements j \<noteq> requirements detailed42
          \<and> description j = description detailed42)"
proof -
  have ins: "insertRow joiningEnv detailed42 =
     Inr \<lparr> row_id = ''42'', row_title = ''Old Title'', row_company = ''Acme'',
           row_location = ''Lahore'', row_type = ''full-time'', row_category = ''design'',
           row_description = ''Design the listing pages.'', row_requirements = ''Figma,Sketch'',
           row_salary = ''100k'', row_posted_date = Some ''2024-01-01'', row_featured = 0,
           row_created_at = 1700000000000, row_updated_at = 1700000000000 \<rparr>"
    by (simp add: insertRow_def categoryParam_def requirementsParam_def postedDateParam_def
        descriptionParam_def salaryParam_def featuredParam_def detailed42_def summaryJob_def
        joiningEnv_def sampleEnv_def)
  have fl: "\<not> openThrows joiningEnv" "\<not> beginThrows joiningEnv" "\<not> commitThrows joiningEnv"
    by (simp_all add: joiningEnv_def sampleEnv_def)
  have sv: "saveJobs joiningEnv (JobArray [detailed42]) emptyWorld =
     (Inr (), emptyWorld\<lparr> db_jobs :=
        [\<lparr> row_id = ''42'', row_title = ''Old Title'', row_company = ''Acme'',
           row_location = ''Lahore'', row_type = ''full-time'', row_category = ''design'',
           row_description = ''Design the listing pages.'', row_requirements = ''Figma,Sketch'',
           row_salary = ''100k'', row_posted_date = Some ''2024-01-01'', row_featured = 0,
           row_created_at = 1700000000000, row_updated_at = 1700000000000 \<rparr>],
        trace := trace emptyWorld @ [StoreWrite [''42'']] \<rparr>)"
    by (simp add: saveJobs_def transaction_def ins fl insertOrReplace_def)
      (simp add: emptyWorld_def detailed42_def summaryJob_def)
  have rq: "requirements detailed42 = Some (TextList [''Figma'', ''Sketch''])"
    "description detailed42 = Some ''Design the listing pages.''"
    by (simp_all add: detailed42_def)
  show ?thesis
    by (simp add: sv rq Database_getJobById_def fl rowJob_def)
qed

section \<open>The Remote Catalog Client\<close>

text \<open>
  C7, as the code has it. \<open>fetchJobs\<close> rejects on every failing request (a rejected
  \<open>fetch\<close>, a status that is not \<open>ok\<close>, a body that is not JSON, a body whose \<open>jobs\<close> is
  \<open>null\<close> or missing) and resolves otherwise, with the body as it is, whether its
  \<open>jobs\<close> is an array or not. \<open>fetchJobById\<close> never rejects: on every failing request
  it resolves with the mock job for the requested id.
\<close>

theorem remote_client_failures:
  "(failingJobsReply reply \<longrightarrow> (\<exists>err. fetchJobs reply = Inl err))
   \<and> (\<not> failingJobsReply reply \<longrightarrow> (\<exists>js n. fetchJobs reply = Inr (js, n)))
   \<and> fetchJobs (JobsData v k) = Inr (v, k)
   \<and> (failingJobReply r \<longrightarrow> fetchJobById now r i = Inr (getMockJobById now i))
   \<and> (\<exists>job. fetchJobById now r i = Inr job)"
proof -
  have a: "failingJobsReply reply \<longrightarrow> (\<exists>err. fetchJobs reply = Inl err)"
    by (cases reply) (simp_all add: fetchJobs_def)
  have b: "\<not> failingJobsReply reply \<longrightarrow> (\<exists>js n. fetchJobs reply = Inr (js, n))"
    by (cases reply) (simp_all add: fetchJobs_def)
  have b': "fetchJobs (JobsData v k) = Inr (v, k)"
    by (simp add: fetchJobs_def)
  have c: "failingJobReply r \<longrightarrow> fetchJobById now r i = Inr (getMockJobById now i)"
    by (cases r) (simp_all add: fetchJobById_def)
  have d: "\<exists>job. fetchJobById now r i = Inr job"
    by (cases r) (simp_all add: fetchJobById_def)
  from a b b' c d show ?thesis by blast
qed

theorem remote_client_failures_witness:
  "(\<exists>err. fetchJobs (JobsStatus 500) = Inl err)
   \<and> (\<exists>err. fetchJobs JobsNoList = Inl err)
   \<and> (\<exists>js n. fetchJobs (JobsData (JobArray sampleCatalog) 3) = Inr (js, n))
   \<and> fetchJobs (JobsData (NotArray (NNumber 5)) 0) = Inr (NotArray (NNumber 5), 0)
   \<and> fetchJobById 1700000000000 JobNetworkError ''7'' = Inr (getMockJobById 1700000000000 ''7'')"
  using remote_client_failures [of "JobsStatus 500" "NotArray (NNumber 5)" 0 JobNetworkError
      1700000000000 "''7''"]
    remote_client_failures [of JobsNoList "NotArray (NNumber 5)" 0 JobNetworkError
      1700000000000 "''7''"]
    remote_client_failures [of "JobsData (JobArray sampleCatalog) 3" "NotArray (NNumber 5)" 0
      JobNetworkError 1700000000000 "''7''"]
  by simp

text \<open>
  A request answered with status 500 is a failing request; \<open>fetchJobById\<close> resolves
  with substitute data for it.
\<close>

theorem remote_client_failures_counterexample:
  "failingJobReply (JobStatus 500)
   \<and> fetchJobById 1700000000000 (JobStatus 500) ''7'' = Inr (getMockJobById 1700000000000 ''7'')
   \<and> \<not> isl (fetchJobById 1700000000000 (JobStatus 500) ''7'')"
  by (simp add: fetchJobById_def)


section \<open>The detail read\<close>

lemma fetchJobById_resolves: "\<exists>jobData. fetchJobById now r i = Inr jobData"
  by (cases r) (simp_all add: fetchJobById_def)

lemma getJobByIdChecks_Continue:
  "pendingFetches c i = None \<Longrightarrow>
   (case jobsCache c i of None \<Rightarrow> True | Some j \<Rightarrow> \<not> truthyStr (description j)) \<Longrightarrow>
   getJobByIdChecks c i = Continue"
  by (auto simp: getJobByIdChecks_def split: option.splits)

lemma localDetailed_absent:
  "find (\<lambda>r. row_id r = i) (db_jobs w) = None \<Longrightarrow> localDetailed e i w = None"
  by (simp add: localDetailed_def Database_getJobById_def)

lemma getJobByIdAfterRead_online:
  assumes "isConnected e = Some True"
    and "fetchJobById (dateNow e) (replyJob e i) i = Inr jobData"
  shows "fst (getJobByIdAfterRead e c i None w) = Inr (Some jobData)"
    and "trace (snd (getJobByIdAfterRead e c i None w)) =
           trace w @ [FetchJobByIdCall i, CacheWrite [i]]
             @ (if fst (saveJobs e (JobArray [jobData]) w) = Inr () then [StoreWrite [id jobData]] else [])"
    and "st_jobsCache (snd (getJobByIdAfterRead e c i None w)) = (st_jobsCache w)(i \<mapsto> jobData)"
    and "st_pendingFetches (snd (getJobByIdAfterRead e c i None w)) = (st_pendingFetches w)(i := None)"
    and "db_jobs (snd (getJobByIdAfterRead e c i None w)) = db_jobs (snd (saveJobs e (JobArray [jobData]) w))"
    and "item_lastSync (snd (getJobByIdAfterRead e c i None w)) = item_lastSync w"
proof -
  let ?w3 = "w\<lparr> st_isOffline := False, trace := trace w @ [FetchJobByIdCall i],
               st_pendingFetches := (st_pendingFetches w)(i \<mapsto> Inr jobData),
               st_jobsCache := (st_jobsCache w)(i \<mapsto> jobData),
               trace := (trace w @ [FetchJobByIdCall i]) @ [CacheWrite [i]] \<rparr>"
  have r: "getJobByIdAfterRead e c i None w =
      (Inr (Some jobData),
       (snd (saveJobs e (JobArray [jobData]) ?w3))
         \<lparr> st_pendingFetches := (st_pendingFetches (snd (saveJobs e (JobArray [jobData]) ?w3)))(i := None) \<rparr>)"
    using assms by (simp add: getJobByIdAfterRead_def Let_def)
  have f: "fst (saveJobs e (JobArray [jobData]) w') =
      map_sum (\<lambda>err. err) (\<lambda>t. ()) (transaction e (JobArray [jobData]) (db_jobs w'))" for w'
    by (simp add: saveJobs_def split: sum.splits)
  show "fst (getJobByIdAfterRead e c i None w) = Inr (Some jobData)"
    by (simp add: r)
  show "trace (snd (getJobByIdAfterRead e c i None w)) =
           trace w @ [FetchJobByIdCall i, CacheWrite [i]]
             @ (if fst (saveJobs e (JobArray [jobData]) w) = Inr () then [StoreWrite [id jobData]] else [])"
    by (simp add: r saveJobs_trace f)
  show "st_jobsCache (snd (getJobByIdAfterRead e c i None w)) = (st_jobsCache w)(i \<mapsto> jobData)"
    by (simp add: r saveJobs_cells)
  show "st_pendingFetches (snd (getJobByIdAfterRead e c i None w)) = (st_pendingFetches w)(i := None)"
    by (simp add: r saveJobs_cells)
  show "db_jobs (snd (getJobByIdAfterRead e c i None w)) = db_jobs (snd (saveJobs e (JobArray [jobData]) w))"
    using saveJobs_db_frame [of ?w3 w e "JobArray [jobData]"] by (simp add: r)
  show "item_lastSync (snd (getJobByIdAfterRead e c i None w)) = item_lastSync w"
    by (simp add: r saveJobs_cells)
qed

lemma getJobByIdAfterRead_offline:
  assumes "isConnected e \<noteq> Some True"
  shows "getJobByIdAfterRead e c i None w =
     (case jobsCache c i of
        Some j \<Rightarrow> (Inr (Some j), w\<lparr> st_isOffline := True \<rparr>)
      | None \<Rightarrow>
          (Inl (Error ''No internet connection. Please connect to a network and try again.''),
           w\<lparr> st_isOffline := True \<rparr>))"
  using assms by (simp add: getJobByIdAfterRead_def)

lemma fetchCalls_append: "fetchCalls i (xs @ ys) = fetchCalls i xs + fetchCalls i ys"
  by (simp add: fetchCalls_def)

lemma fetchCalls_simps:
  "fetchCalls i [] = 0"
  "fetchCalls i (FetchJobByIdCall i # evs) = Suc (fetchCalls i evs)"
  "fetchCalls i (CacheWrite ids # evs) = fetchCalls i evs"
  "fetchCalls i (StoreWrite ids # evs) = fetchCalls i evs"
  by (simp_all add: fetchCalls_def)

text \<open>
  C2, at the input where the code departs from it. Two calls of \<open>getJobById(i)\<close> made
  in the same tick by one closure, with no entry for \<open>i\<close> in the captured cache, in
  the captured pending table or in the local database, and the device online: each
  call reaches \<open>fetchJobById\<close>, so the remote client is invoked twice. Both calls
  resolve with the record their own fetch returned.
\<close>

theorem getJobByIdTwice_fetches_twice:
  assumes "jobsCache c i = None" and "pendingFetches c i = None"
    and "find (\<lambda>r. row_id r = i) (db_jobs w) = None"
    and "isConnected e = Some True"
  shows "fetchCalls i (trace (snd (getJobByIdTwice e c i w))) = fetchCalls i (trace w) + 2
       \<and> (\<exists>jobData. fst (getJobByIdTwice e c i w) = (Inr (Some jobData), Inr (Some jobData)))"
proof -
  have k: "getJobByIdChecks c i = Continue"
    using assms(1,2) by (simp add: getJobByIdChecks_Continue)
  have l: "localDetailed e i w = None"
    using assms(3) by (rule localDetailed_absent)
  obtain jobData where jd: "fetchJobById (dateNow e) (replyJob e i) i = Inr jobData"
    using fetchJobById_resolves by blast
  note first = getJobByIdAfterRead_online [OF assms(4) jd, of c w]
  let ?w1 = "snd (getJobByIdAfterRead e c i None w)"
  note second = getJobByIdAfterRead_online [OF assms(4) jd, of c ?w1]
  have tw: "getJobByIdTwice e c i w =
      ((fst (getJobByIdAfterRead e c i None w), fst (getJobByIdAfterRead e c i None ?w1)),
       snd (getJobByIdAfterRead e c i None ?w1))"
    by (simp add: getJobByIdTwice_def k l Let_def split: prod.splits)
  have "fetchCalls i (trace (snd (getJobByIdTwice e c i w))) = fetchCalls i (trace w) + 2"
    by (simp add: tw second(2) first(2) fetchCalls_append fetchCalls_simps)
  moreover have "fst (getJobByIdTwice e c i w) = (Inr (Some jobData), Inr (Some jobData))"
    by (simp add: tw first(1) second(1))
  ultimately show ?thesis by blast
qed

theorem getJobByIdTwice_fetches_twice_witness:
  "fetchCalls ''7'' (trace (snd (getJobByIdTwice sampleEnv (render emptyWorld) ''7'' emptyWorld))) = 2"
proof -
  have a: "jobsCache (render emptyWorld) ''7'' = None"
    "pendingFetches (render emptyWorld) ''7'' = None"
    "find (\<lambda>r. row_id r = ''7'') (db_jobs emptyWorld) = None"
    "trace emptyWorld = []"
    by (simp_all add: render_def emptyWorld_def)
  show ?thesis
    using getJobByIdTwice_fetches_twice [OF a(1,2,3) sampleEnv_reply(1)]
    by (simp add: a(4) fetchCalls_simps)
qed

text \<open>
  C3, as the code has it. Offline, with no pending fetch captured for the id and no
  detailed record in the local database (or a read of it that throws), \<open>getJobById\<close>
  makes no call of the remote client; it resolves with the record the captured cache
  holds for the id, summary or detailed, and when the cache holds none it rejects
  with the error \<open>No internet connection. Please connect to a network and try again.\<close>
\<close>

theorem getJobById_offline:
  assumes "isConnected e \<noteq> Some True" and "pendingFetches c i = None"
    and "localDetailed e i w = None"
  shows "fst (getJobById e c i w) =
           (case jobsCache c i of
              Some j \<Rightarrow> Inr (Some j)
            | None \<Rightarrow>
                Inl (Error ''No internet connection. Please connect to a network and try again.''))
       \<and> trace (snd (getJobById e c i w)) = trace w"
  using assms
  by (simp add: getJobById_def getJobByIdChecks_def getJobByIdAfterRead_offline
      split: option.splits)

theorem getJobById_offline_witness:
  "fst (getJobById offlineEnv (render populatedWorld) ''1'' populatedWorld) =
     Inr (Some (summaryJob ''1'' ''Designer'' False ''2024-01-10''))
   \<and> trace (snd (getJobById offlineEnv (render populatedWorld) ''1'' populatedWorld)) = []"
proof -
  have a: "isConnected offlineEnv \<noteq> Some True" by (simp add: offlineEnv_def)
  have b: "pendingFetches (render populatedWorld) ''1'' = None"
    by (simp add: render_def populatedWorld_def emptyWorld_def)
  have c: "localDetailed offlineEnv ''1'' populatedWorld = None"
    by (rule localDetailed_absent) (simp add: populatedWorld_def emptyWorld_def)
  have d: "jobsCache (render populatedWorld) ''1''
      = Some (summaryJob ''1'' ''Designer'' False ''2024-01-10'')"
    by (simp add: render_def populatedWorld_def)
  have t: "trace populatedWorld = []" by (simp add: populatedWorld_def emptyWorld_def)
  show ?thesis using getJobById_offline [OF a b c] by (simp add: d t)
qed

text \<open>Offline with nothing cached, the promise of \<open>getJobById\<close> is rejected.\<close>

theorem getJobById_offline_counterexample:
  "fst (getJobById offlineEnv (render emptyWorld) ''9'' emptyWorld) =
     Inl (Error ''No internet connection. Please connect to a network and try again.'')
   \<and> isl (fst (getJobById offlineEnv (render emptyWorld) ''9'' emptyWorld))"
proof -
  have a: "isConnected offlineEnv \<noteq> Some True" by (simp add: offlineEnv_def)
  have c: "localDetailed offlineEnv ''9'' emptyWorld = None"
    by (rule localDetailed_absent) (simp add: emptyWorld_def)
  have k: "getJobByIdChecks (render emptyWorld) ''9'' = Continue"
    by (simp add: getJobByIdChecks_def render_def emptyWorld_def)
  have d: "jobsCache (render emptyWorld) ''9'' = None"
    by (simp add: render_def emptyWorld_def)
  have "fst (getJobById offlineEnv (render emptyWorld) ''9'' emptyWorld) =
     Inl (Error ''No internet connection. Please connect to a network and try again.'')"
    by (simp add: getJobById_def k c getJobByIdAfterRead_offline [OF a] d)
  then show ?thesis by simp
qed

section \<open>The order of the writes\<close>

text \<open>
  C6, as the code has it. A refresh that fetched and saved a non-empty catalog writes
  the store first, then the timestamp, then the memory cache. A detail read that
  goes to the network (no detailed record and no pending fetch captured for the id,
  no detailed record in the local database, the device online) writes the memory
  cache first and the store after it.
\<close>

theorem write_order:
  "(isConnected e = Some True \<and> fetchJobs (replyJobs e) = Inr (JobArray jobsData, n)
      \<and> fst (saveJobs e (JobArray jobsData) w) = Inr () \<and> jobsData \<noteq> []
    \<longrightarrow> trace (refreshFromApi e s c w) =
          trace w @ [FetchJobsCall, StoreWrite (map id jobsData)]
            @ (if setItemThrows e then [] else [TimestampWrite])
            @ [CacheWrite (map id jobsData)])
   \<and> (isConnected e = Some True \<and> getJobByIdChecks c i = Continue
        \<and> localDetailed e i w = None
        \<and> fetchJobById (dateNow e) (replyJob e i) i = Inr jobData
    \<longrightarrow> trace (snd (getJobById e c i w)) =
          trace w @ [FetchJobByIdCall i, CacheWrite [i]]
            @ (if fst (saveJobs e (JobArray [jobData]) w) = Inr ()
               then [StoreWrite [id jobData]] else []))"
proof (rule conjI; rule impI)
  assume "isConnected e = Some True \<and> fetchJobs (replyJobs e) = Inr (JobArray jobsData, n)
      \<and> fst (saveJobs e (JobArray jobsData) w) = Inr () \<and> jobsData \<noteq> []"
  then show "trace (refreshFromApi e s c w) =
          trace w @ [FetchJobsCall, StoreWrite (map id jobsData)]
            @ (if setItemThrows e then [] else [TimestampWrite])
            @ [CacheWrite (map id jobsData)]"
    by (simp add: refreshFromApi_saved(6))
next
  assume a: "isConnected e = Some True \<and> getJobByIdChecks c i = Continue
        \<and> localDetailed e i w = None
        \<and> fetchJobById (dateNow e) (replyJob e i) i = Inr jobData"
  then have k: "getJobByIdChecks c i = Continue"
    and on: "isConnected e = Some True"
    and jd: "fetchJobById (dateNow e) (replyJob e i) i = Inr jobData"
    and l: "localDetailed e i w = None"
    by simp_all
  show "trace (snd (getJobById e c i w)) =
          trace w @ [FetchJobByIdCall i, CacheWrite [i]]
            @ (if fst (saveJobs e (JobArray [jobData]) w) = Inr ()
               then [StoreWrite [id jobData]] else [])"
    by (simp add: getJobById_def k l getJobByIdAfterRead_online(2) [OF on jd])
qed

theorem write_order_witness:
  "trace (refreshFromApi sampleEnv False (render emptyWorld) emptyWorld) =
     [FetchJobsCall, StoreWrite [''1'', ''2'', ''3''], TimestampWrite,
      CacheWrite [''1'', ''2'', ''3'']]
   \<and> st_jobsCache summaryWorld42 ''42'' = Some incoming42
   \<and> trace (snd (getJobById detailEnv (render summaryWorld42) ''42'' summaryWorld42)) =
     [FetchJobByIdCall ''42'', CacheWrite [''42''], StoreWrite [''42'']]"
proof -
  have a: "jobsCache (render summaryWorld42) ''42'' = Some incoming42"
    "st_jobsCache summaryWorld42 ''42'' = Some incoming42"
    "pendingFetches (render summaryWorld42) ''42'' = None"
    "trace summaryWorld42 = []" "trace emptyWorld = []"
    "description incoming42 = None"
    by (simp_all add: render_def summaryWorld42_def emptyWorld_def incoming42_def summaryJob_def)
  have k: "getJobByIdChecks (render summaryWorld42) ''42'' = Continue"
    by (simp add: getJobByIdChecks_def a truthyStr_def)
  have l: "localDetailed detailEnv ''42'' summaryWorld42 = None"
    by (rule localDetailed_absent) (simp add: summaryWorld42_def emptyWorld_def)
  have ne: "sampleCatalog \<noteq> []" "map id sampleCatalog = [''1'', ''2'', ''3'']"
    by (simp_all add: sampleCatalog_def summaryJob_def)
  have on: "isConnected detailEnv = Some True"
    by (simp add: detailEnv_def sampleEnv_def)
  have jd: "fetchJobById (dateNow detailEnv) (replyJob detailEnv ''42'') ''42'' = Inr textJob"
    by (simp add: fetchJobById_def detailEnv_def textJob_def summaryJob_def)
  have "insertRow detailEnv textJob = insertRow sampleEnv textJob"
    by (rule insertRow_env) (simp_all add: detailEnv_def)
  moreover have "\<exists>r. insertRow sampleEnv textJob = Inr r"
    by (simp add: insertRow_def categoryParam_def requirementsParam_def postedDateParam_def
        descriptionParam_def salaryParam_def featuredParam_def textJob_def summaryJob_def
        sampleEnv_def)
  ultimately obtain r where r: "insertRow detailEnv textJob = Inr r" by auto
  have fl: "\<not> openThrows detailEnv" "\<not> beginThrows detailEnv" "\<not> commitThrows detailEnv"
    by (simp_all add: detailEnv_def sampleEnv_def)
  have sv: "fst (saveJobs detailEnv (JobArray [textJob]) summaryWorld42) = Inr ()"
    by (simp add: saveJobs_def transaction_def r fl)
  have i: "id textJob = ''42''" by (simp add: textJob_def summaryJob_def)
  show ?thesis
    using write_order [of sampleEnv sampleCatalog 3 emptyWorld False "render emptyWorld"]
      write_order [of detailEnv sampleCatalog 3 summaryWorld42 False "render summaryWorld42"
        "''42''" textJob]
      sampleEnv_reply sampleCatalog_saves [of emptyWorld] sampleEnv_flags(4)
    by (simp add: a k l ne on jd sv i)
qed

text \<open>
  In a refresh of an empty provider the store receives the three ids before the
  memory cache does.
\<close>

theorem write_order_counterexample:
  "trace (refreshFromApi sampleEnv False (render emptyWorld) emptyWorld) =
     [FetchJobsCall, StoreWrite [''1'', ''2'', ''3''], TimestampWrite,
      CacheWrite [''1'', ''2'', ''3'']]
   \<and> \<not> memoryFirst [] (trace (refreshFromApi sampleEnv False (render emptyWorld) emptyWorld))"
proof -
  have ne: "sampleCatalog \<noteq> []" "map id sampleCatalog = [''1'', ''2'', ''3'']"
    by (simp_all add: sampleCatalog_def summaryJob_def)
  have t: "trace (refreshFromApi sampleEnv False (render emptyWorld) emptyWorld) =
     [FetchJobsCall, StoreWrite [''1'', ''2'', ''3''], TimestampWrite,
      CacheWrite [''1'', ''2'', ''3'']]"
    by (simp add: refreshFromApi_saved(6) [OF sampleEnv_reply sampleCatalog_saves]
        ne sampleEnv_flags emptyWorld_def)
  show ?thesis by (simp add: t)
qed


section \<open>The memoised \<open>refreshJobs\<close>\<close>

text \<open>
  \<open>refreshJobs\<close> runs the \<open>refreshFromApi\<close> of the first render, whose \<open>jobsCache\<close> and
  \<open>jobs\<close> are empty whatever the provider holds by now: a successful refresh stores
  the catalog alone as the cache, and a failed fetch always sets the error message.
\<close>

lemma refreshJobs_replaces_cache:
  assumes "isConnected e = Some True"
    and "fetchJobs (replyJobs e) = Inr (JobArray jobsData, n)"
    and "fst (saveJobs e (JobArray jobsData) w) = Inr ()"
  shows "st_jobsCache (refreshJobs e w) x = find (\<lambda>j. id j = x) (rev jobsData)"
  by (simp add: refreshJobs_def refreshFromApi_saved(1) [OF assms] mergeLoop_lookup
      firstRender_def split: option.splits)

lemma refreshJobs_reports_error:
  assumes "isConnected e = Some True" and "fetchJobs (replyJobs e) = Inl err"
  shows "st_error (refreshJobs e w) =
           Some ''Failed to load data. Please check your connection and try again.''"
  by (simp add: refreshJobs_def refreshFromApi_fetch_failed(5) [OF assms] firstRender_def)

end
